theory Spec2Isabelle
  imports Main "HOL-Library.Word" "HOL-Library.AList"
begin

section \<open>Go library functions used by the field-mapping service\<close>

text \<open>
  Go strings are byte sequences; they are modelled as \<open>string\<close> (a list of 8-bit
  characters). The functions of package \<open>strings\<close> and \<open>strconv\<close> that the service calls
  are written out below for the arguments the service passes (one-byte separators).
\<close>

fun Split :: "char \<Rightarrow> string \<Rightarrow> string list" where
  "Split sep [] = [[]]"
| "Split sep (c # cs) =
     (if c = sep then [] # Split sep cs
      else (case Split sep cs of
              [] \<Rightarrow> [[c]]
            | p # ps \<Rightarrow> (c # p) # ps))"

definition Contains :: "string \<Rightarrow> char \<Rightarrow> bool" where
  "Contains s c = (c \<in> set s)"

fun Index :: "string \<Rightarrow> char \<Rightarrow> int" where
  "Index [] c = -1"
| "Index (x # xs) c =
     (if x = c then 0
      else (let i = Index xs c in if i < 0 then -1 else i + 1))"

definition HasPrefix :: "string \<Rightarrow> string \<Rightarrow> bool" where
  "HasPrefix s p = (take (length p) s = p)"

definition HasSuffix :: "string \<Rightarrow> string \<Rightarrow> bool" where
  "HasSuffix s p = (length p \<le> length s \<and> drop (length s - length p) s = p)"

text \<open>
  \<open>strconv.Atoi\<close>: an optional sign followed by one or more decimal digits, and the
  value must fit Go's \<open>int\<close> (64 bits on the platforms the service is built for).
\<close>

definition isDigit :: "char \<Rightarrow> bool" where
  "isDigit c = (48 \<le> (of_char c :: nat) \<and> (of_char c :: nat) \<le> 57)"

definition digitsValue :: "string \<Rightarrow> int" where
  "digitsValue ds = foldl (\<lambda>n c. n * 10 + ((of_char c :: int) - 48)) 0 ds"

definition Atoi :: "string \<Rightarrow> int option" where
  "Atoi s =
     (let neg = (s \<noteq> [] \<and> hd s = CHR ''-'');
          ds = (if s \<noteq> [] \<and> (hd s = CHR ''-'' \<or> hd s = CHR ''+'') then tl s else s)
      in if ds = [] \<or> \<not> list_all isDigit ds then None
         else (let n = (if neg then - digitsValue ds else digitsValue ds)
               in if n < - (2 ^ 63) \<or> 2 ^ 63 \<le> n then None else Some n))"

text \<open>\<open>strconv.ParseBool\<close> accepts exactly these twelve spellings.\<close>

definition ParseBool :: "string \<Rightarrow> bool option" where
  "ParseBool s =
     (if s \<in> set [''1'', ''t'', ''T'', ''TRUE'', ''true'', ''True''] then Some True
      else if s \<in> set [''0'', ''f'', ''F'', ''FALSE'', ''false'', ''False''] then Some False
      else None)"

text \<open>
  \<open>strings.ReplaceAll\<close> for a non-empty \<open>old\<close>: non-overlapping occurrences are replaced
  from left to right. (The service only calls it with the placeholder \<open>{{value}}\<close>; Go's
  special treatment of an empty \<open>old\<close> is not needed and the text is returned unchanged.)
\<close>

function ReplaceAll :: "string \<Rightarrow> string \<Rightarrow> string \<Rightarrow> string" where
  "ReplaceAll s old new =
     (if s = [] \<or> old = [] then s
      else if take (length old) s = old then new @ ReplaceAll (drop (length old) s) old new
      else hd s # ReplaceAll (tl s) old new)"
  by pat_completeness auto
termination
  by (relation "measure (\<lambda>(s, old, new). length s)") auto

text \<open>Decimal rendering of an integer, as \<open>%v\<close> and \<open>%d\<close> print it.\<close>

fun natDigits :: "nat \<Rightarrow> string" where
  "natDigits n = (if n < 10 then [char_of (48 + n)] else natDigits (n div 10) @ [char_of (48 + n mod 10)])"

definition Itoa :: "int \<Rightarrow> string" where
  "Itoa i = (if i < 0 then CHR ''-'' # natDigits (nat (- i)) else natDigits (nat i))"

text \<open>Go's \<open>int\<close> arithmetic wraps around at 64 bits.\<close>

definition wrap64 :: "int \<Rightarrow> int" where
  "wrap64 x = (x + 2 ^ 63) mod 2 ^ 64 - 2 ^ 63"

section \<open>Documents, errors and results\<close>

text \<open>
  A document is what \<open>encoding/json\<close> decodes into \<open>interface{}\<close>: nil, a bool, a
  \<open>float64\<close>, a string, a slice or a map with string keys; the transformations add \<open>int\<close>
  values. A \<open>float64\<close> is kept as its IEEE-754 bit pattern; parsing and printing floats are
  library functions (see \<open>env\<close> below). A Go map is modelled as an association list read with
  \<open>map_of\<close> and written with \<open>AList.update\<close>.

  Documents are modelled as values (trees), and a function that mutates a map returns the
  new map. Go maps and slices are references, so the value model is exact as long as no map or
  slice is reachable along two different paths. That holds for a freshly decoded source
  document and for a destination document that is written once per path. It is left when a
  rule copies a map or slice of the source into the destination by reference (for example with
  the transformation \<open>none\<close>) and a later rule writes inside the copy: Go then changes the
  source document too, and the model does not.
\<close>

datatype float64 = Float64 (bits: "64 word")

datatype val =
    VNil
  | VBool bool
  | VInt int
  | VFloat float64
  | VString string
  | VSlice "val list"
  | VMap "(string \<times> val) list"

type_synonym object = "(string \<times> val) list"

text \<open>One constructor per \<open>fmt.Errorf\<close> site; the arguments are the values the message prints.\<close>

datatype error =
    InvalidArrayIndex string
  | ArrayIndexOutOfBounds int
  | FieldIsNotAnArray string
  | ParentIsNotAnObject string
  | FieldNotFound string
  | ArrayElementIsNotAnObject int
  | FieldIsNotAnObject string
  | InvalidTransformConfig string
  | ErrorParsingDate string
  | ValueIsNotAString
  | ErrorConvertingToInt string
  | ErrorConvertingToFloat string
  | ErrorConvertingToBool string
  | UnsupportedConversionType string
  | NoMappingFound val
  | InvalidDirection string
  | MediaValueIsNotAnArray
  | EmptyEntityID
  | ErrorLookingUpManufacturer string
  | ErrorLookingUpCategory string
  | UnsupportedEntityType string
  | ValueIsNotAnArrayOrObject
  | MetafieldNamespaceAndKeyRequired
  | InvalidArrayIndexInPath string
  | ValueAtKeyIsNotAnArray string
  | KeyNotFoundInObject string
  | CannotAccessPropertyOfArray string
  | CannotAccessPropertyOfNonObject string
  | UnsupportedTransformationType string
  | RequiredFieldNotFound string
  | ErrorTransformingField string error
  | ErrorSettingField string error
  | ErrorGettingFieldMappings string
  | ErrorParsingSourceData string

text \<open>Run-time panics of the Go runtime that the code can reach.\<close>

datatype panic =
    IndexOutOfRange
  | SliceBoundsOutOfRange
  | MakesliceLenOutOfRange
  | InterfaceConversion

datatype 'a result = Ok 'a | Err error | Panic panic

text \<open>
  The string slice expression \<open>s[lo:hi]\<close> and \<open>make([]interface{}, n)\<close>. The runtime's
  \<open>makeslice\<close> panics with \<open>len out of range\<close> when the length is negative or the slice would
  be larger than the address space of the heap: an \<open>interface{}\<close> takes 16 bytes and the 64-bit
  Linux heap spans \<open>2^48\<close> bytes, so at most \<open>2^44\<close> elements pass. Below that bound the model
  always allocates; whether the machine has the memory is not part of it.
\<close>

definition sliceString :: "string \<Rightarrow> int \<Rightarrow> int \<Rightarrow> string result" where
  "sliceString s lo hi =
     (if 0 \<le> lo \<and> lo \<le> hi \<and> hi \<le> int (length s)
      then Ok (take (nat (hi - lo)) (drop (nat lo) s))
      else Panic SliceBoundsOutOfRange)"

definition makeSlice :: "int \<Rightarrow> (val list) result" where
  "makeSlice n =
     (if n < 0 \<or> 2 ^ 44 < n then Panic MakesliceLenOutOfRange
      else Ok (replicate (nat n) VNil))"

section \<open>Nested path accessor\<close>

text \<open>
  Both accessors recognise an array access such as \<open>items[0]\<close> by the same three lines:
  the key is the text before the first \<open>[\<close>, the index the text between the first \<open>[\<close> and the
  first \<open>]\<close>, parsed by \<open>Atoi\<close>.
\<close>

definition isArrayAccess :: "string \<Rightarrow> bool" where
  "isArrayAccess part = (Contains part CHR ''['' \<and> Contains part CHR '']'')"

definition parseArrayAccess :: "string \<Rightarrow> (string \<times> int) result" where
  "parseArrayAccess part =
     (case sliceString part 0 (Index part CHR ''['') of
        Panic p \<Rightarrow> Panic p
      | Err e \<Rightarrow> Err e
      | Ok key \<Rightarrow>
          (case sliceString part (Index part CHR ''['' + 1) (Index part CHR '']'') of
             Panic p \<Rightarrow> Panic p
           | Err e \<Rightarrow> Err e
           | Ok indexStr \<Rightarrow>
               (case Atoi indexStr of
                  None \<Rightarrow> Err (InvalidArrayIndex indexStr)
                | Some index \<Rightarrow> Ok (key, index))))"

definition getPart :: "val \<Rightarrow> string \<Rightarrow> val result" where
  "getPart current part =
     (if isArrayAccess part then
        (case parseArrayAccess part of
           Panic p \<Rightarrow> Panic p
         | Err e \<Rightarrow> Err e
         | Ok (key, index) \<Rightarrow>
             (case current of
                VMap currentMap \<Rightarrow>
                  (case map_of currentMap key of
                     Some (VSlice arr) \<Rightarrow>
                       if index < 0 \<or> int (length arr) \<le> index
                       then Err (ArrayIndexOutOfBounds index)
                       else Ok (arr ! nat index)
                   | _ \<Rightarrow> Err (FieldIsNotAnArray key))
              | _ \<Rightarrow> Err (ParentIsNotAnObject key)))
      else
        (case current of
           VMap currentMap \<Rightarrow>
             (case map_of currentMap part of
                Some v \<Rightarrow> Ok v
              | None \<Rightarrow> Err (FieldNotFound part))
         | _ \<Rightarrow> Err (ParentIsNotAnObject part)))"

fun getLoop :: "val \<Rightarrow> string list \<Rightarrow> val result" where
  "getLoop current [] = Ok current"
| "getLoop current (part # parts) =
     (case getPart current part of
        Ok v \<Rightarrow> getLoop v parts
      | Err e \<Rightarrow> Err e
      | Panic p \<Rightarrow> Panic p)"

definition getNestedValue :: "object \<Rightarrow> string \<Rightarrow> val result" where
  "getNestedValue obj path = getLoop (VMap obj) (Split CHR ''.'' path)"

text \<open>
  \<open>setNestedValue\<close> mutates the object it is given; the model returns the object as the
  mutation leaves it, together with the outcome (so the writes made before an error or a panic
  are not lost). \<open>ensureArray\<close> is the block that both the loop and the last part run: create the
  slice when the key is missing, check that the field is a slice, grow it to \<open>index+1\<close>.
\<close>

definition ensureArray :: "object \<Rightarrow> string \<Rightarrow> int \<Rightarrow> object \<times> (val list) result" where
  "ensureArray current key index =
     (case (if map_of current key = None
            then (case makeSlice (wrap64 (index + 1)) of
                    Ok fresh \<Rightarrow> Ok (AList.update key (VSlice fresh) current)
                  | Err e \<Rightarrow> Err e
                  | Panic p \<Rightarrow> Panic p)
            else Ok current) of
        Panic p \<Rightarrow> (current, Panic p)
      | Err e \<Rightarrow> (current, Err e)
      | Ok current1 \<Rightarrow>
          (case map_of current1 key of
             Some (VSlice arr) \<Rightarrow>
               if int (length arr) \<le> index then
                 (case makeSlice (wrap64 (index + 1)) of
                    Ok newArr \<Rightarrow>
                      (let arr' = arr @ drop (length arr) newArr
                       in (AList.update key (VSlice arr') current1, Ok arr'))
                  | Err e \<Rightarrow> (current1, Err e)
                  | Panic p \<Rightarrow> (current1, Panic p))
               else (current1, Ok arr)
           | _ \<Rightarrow> (current1, Err (FieldIsNotAnArray key))))"

definition setLast :: "object \<Rightarrow> string \<Rightarrow> val \<Rightarrow> object \<times> unit result" where
  "setLast current lastPart v =
     (if isArrayAccess lastPart then
        (case parseArrayAccess lastPart of
           Panic p \<Rightarrow> (current, Panic p)
         | Err e \<Rightarrow> (current, Err e)
         | Ok (key, index) \<Rightarrow>
             (case ensureArray current key index of
                (current1, Panic p) \<Rightarrow> (current1, Panic p)
              | (current1, Err e) \<Rightarrow> (current1, Err e)
              | (current1, Ok arr) \<Rightarrow>
                  if index < 0 then (current1, Panic IndexOutOfRange)
                  else (AList.update key (VSlice (arr[nat index := v])) current1, Ok ())))
      else (AList.update lastPart v current, Ok ()))"

fun setLoop :: "object \<Rightarrow> string list \<Rightarrow> val \<Rightarrow> object \<times> unit result" where
  "setLoop current [] v = (current, Panic IndexOutOfRange)"
| "setLoop current [lastPart] v = setLast current lastPart v"
| "setLoop current (part # next # rest) v =
     (if isArrayAccess part then
        (case parseArrayAccess part of
           Panic p \<Rightarrow> (current, Panic p)
         | Err e \<Rightarrow> (current, Err e)
         | Ok (key, index) \<Rightarrow>
             (case ensureArray current key index of
                (current1, Panic p) \<Rightarrow> (current1, Panic p)
              | (current1, Err e) \<Rightarrow> (current1, Err e)
              | (current1, Ok arr) \<Rightarrow>
                  if rest \<noteq> [] then
                    (if index < 0 then (current1, Panic IndexOutOfRange)
                     else
                       (case (if arr ! nat index = VNil then VMap [] else arr ! nat index) of
                          VMap nextMap \<Rightarrow>
                            (case setLoop nextMap (next # rest) v of
                               (nextMap', r) \<Rightarrow>
                                 (AList.update key (VSlice (arr[nat index := VMap nextMap'])) current1, r))
                        | _ \<Rightarrow> (current1, Err (ArrayElementIsNotAnObject index))))
                  else setLoop current1 (next # rest) v))
      else
        (let current1 = (if map_of current part = None
                         then AList.update part (VMap []) current else current)
         in (case map_of current1 part of
               Some (VMap nextMap) \<Rightarrow>
                 (case setLoop nextMap (next # rest) v of
                    (nextMap', r) \<Rightarrow> (AList.update part (VMap nextMap') current1, r))
             | _ \<Rightarrow> (current1, Err (FieldIsNotAnObject part)))))"

definition setNestedValue :: "object \<Rightarrow> string \<Rightarrow> val \<Rightarrow> object \<times> unit result" where
  "setNestedValue obj path v = setLoop obj (Split CHR ''.'' path) v"

section \<open>Field mappings and the environment of the service\<close>

type_synonym TransformationType = string

definition TransformationTypeNone :: TransformationType where
  "TransformationTypeNone = ''none''"
definition TransformationTypeFormat :: TransformationType where
  "TransformationTypeFormat = ''format''"
definition TransformationTypeConvert :: TransformationType where
  "TransformationTypeConvert = ''convert''"
definition TransformationTypeMap :: TransformationType where
  "TransformationTypeMap = ''map''"
definition TransformationTypeTemplate :: TransformationType where
  "TransformationTypeTemplate = ''template''"
definition TransformationTypeGraphQLID :: TransformationType where
  "TransformationTypeGraphQLID = ''graphql_id''"
definition TransformationTypeArrayMap :: TransformationType where
  "TransformationTypeArrayMap = ''array_map''"
definition TransformationTypeJsonPath :: TransformationType where
  "TransformationTypeJsonPath = ''json_path''"
definition TransformationTypeConditional :: TransformationType where
  "TransformationTypeConditional = ''conditional''"
definition TransformationTypeMediaMap :: TransformationType where
  "TransformationTypeMediaMap = ''media_map''"
definition TransformationTypeMetafield :: TransformationType where
  "TransformationTypeMetafield = ''metafield''"
definition TransformationTypeEntityLookup :: TransformationType where
  "TransformationTypeEntityLookup = ''entity_lookup''"

text \<open>The persisted fields of \<open>models.FieldMapping\<close> (timestamps and relations left out).\<close>

record FieldMapping =
  ID :: nat
  DataflowID :: nat
  SourceField :: string
  DestField :: string
  IsRequired :: bool
  DefaultValue :: string
  TransformType :: TransformationType
  TransformConfig :: string

text \<open>The anonymous config structs that \<open>applyTransformation\<close> decodes \<open>TransformConfig\<close> into.\<close>

record FormatConfig =
  SourceFormat :: string
  DestFormat :: string

record ConvertConfig =
  ConvertType :: string

record TemplateConfig =
  Template :: string

record GraphQLIDConfig =
  ResourceType :: string
  Direction :: string

record ArrayMapConfig =
  SourcePath :: string
  DestPath :: string
  Mapping :: "(string \<times> string) list option"

record JsonPathConfig =
  Path :: string

record MediaMapConfig =
  BaseURL :: string

record MetafieldConfig =
  Namespace :: string
  Key :: string
  MetafieldType :: string

record EntityLookupConfig =
  EntityType :: string
  Property :: string

text \<open>
  What the service obtains from outside its own code is collected in one record: the database
  (through gorm), the JSON decoder and encoder, and the parts of \<open>fmt\<close>, \<open>strconv\<close>, \<open>strings\<close>
  and \<open>time\<close> that work on floating-point numbers, Unicode or calendar time. Every theorem
  below holds for every such environment. A library call that fails returns \<open>Inl\<close> with the
  library's message.
\<close>

typedecl Time

datatype dbRow = RecordNotFound | DbError string | Row object

record env =
  ListFieldMappings :: "nat \<Rightarrow> string + FieldMapping list"
  UnmarshalSource :: "string \<Rightarrow> string + object"
  UnmarshalFormat :: "string \<Rightarrow> string + FormatConfig"
  UnmarshalConvert :: "string \<Rightarrow> string + ConvertConfig"
  UnmarshalMap :: "string \<Rightarrow> string + object"
  UnmarshalTemplate :: "string \<Rightarrow> string + TemplateConfig"
  UnmarshalGraphQLID :: "string \<Rightarrow> string + GraphQLIDConfig"
  UnmarshalArrayMap :: "string \<Rightarrow> string + ArrayMapConfig"
  UnmarshalJsonPath :: "string \<Rightarrow> string + JsonPathConfig"
  UnmarshalMediaMap :: "string \<Rightarrow> string + MediaMapConfig"
  UnmarshalMetafield :: "string \<Rightarrow> string + MetafieldConfig"
  UnmarshalEntityLookup :: "string \<Rightarrow> string + EntityLookupConfig"
  Marshal :: "val \<Rightarrow> string + string"
  TimeParse :: "string \<Rightarrow> string \<Rightarrow> string + Time"
  TimeFormat :: "Time \<Rightarrow> string \<Rightarrow> string"
  ParseFloat :: "string \<Rightarrow> string + float64"
  FormatV :: "val \<Rightarrow> string"
  FormatS :: "val \<Rightarrow> string"
  ToLower :: "string \<Rightarrow> string"
  First :: "string \<Rightarrow> string \<Rightarrow> dbRow"

text \<open>
  \<open>fmt.Sprintf("%v", value)\<close> and \<open>fmt.Sprintf("%s", value)\<close>. The renderings of nil, bools,
  ints and strings are fixed; those of floats, slices and maps (and, for \<open>%s\<close>, of every
  operand that is not a string) are taken from the environment.
\<close>

definition sprintfV :: "env \<Rightarrow> val \<Rightarrow> string" where
  "sprintfV E v =
     (case v of
        VString s \<Rightarrow> s
      | VNil \<Rightarrow> ''<nil>''
      | VBool b \<Rightarrow> (if b then ''true'' else ''false'')
      | VInt i \<Rightarrow> Itoa i
      | _ \<Rightarrow> FormatV E v)"

definition sprintfS :: "env \<Rightarrow> val \<Rightarrow> string" where
  "sprintfS E v = (case v of VString s \<Rightarrow> s | _ \<Rightarrow> FormatS E v)"

section \<open>Transformations\<close>

subsection \<open>media\_map\<close>

definition mediaField :: "env \<Rightarrow> object \<Rightarrow> string \<Rightarrow> string" where
  "mediaField E mediaMap k =
     (case map_of mediaMap k of
        None \<Rightarrow> []
      | Some v \<Rightarrow> if v \<noteq> VNil then sprintfS E v else [])"

definition fullURL :: "string \<Rightarrow> string \<Rightarrow> string" where
  "fullURL baseURL url =
     (if baseURL \<noteq> [] \<and> \<not> HasPrefix url ''http''
      then (if HasSuffix baseURL ''/'' then baseURL @ url else baseURL @ ''/'' @ url)
      else url)"

text \<open>The loop of \<open>transformMedia\<close>; \<open>i\<close> is the index of the first item of the list.\<close>

fun mediaLoop :: "env \<Rightarrow> MediaMapConfig \<Rightarrow> nat \<Rightarrow> val list \<Rightarrow> val list" where
  "mediaLoop E config i [] = []"
| "mediaLoop E config i (item # items) =
     (case item of
        VMap mediaMap \<Rightarrow>
          VMap [(''mediaContentType'', VString ''IMAGE''),
                (''originalSource'', VString (fullURL (BaseURL config) (mediaField E mediaMap ''url''))),
                (''alt'', VString (mediaField E mediaMap ''alt'')),
                (''position'', VInt (int i + 1))]
            # mediaLoop E config (i + 1) items
      | _ \<Rightarrow> mediaLoop E config (i + 1) items)"

definition transformMedia :: "env \<Rightarrow> val \<Rightarrow> MediaMapConfig \<Rightarrow> val result" where
  "transformMedia E v config =
     (case v of
        VSlice sourceArray \<Rightarrow> Ok (VSlice (mediaLoop E config 0 sourceArray))
      | _ \<Rightarrow> Err MediaValueIsNotAnArray)"

subsection \<open>entity\_lookup\<close>

text \<open>
  \<open>lookupIn\<close> is the block that \<open>lookupEntity\<close> runs for the tables \<open>manufacturer\<close> and
  \<open>category\<close>; its branches are those of the code, and which of them a lookup takes is decided
  by what the database layer returns for \<open>db.Table(..).Where(..).First(&row)\<close>, which the
  environment stands for. For an unsupported entity type the Go code returns the ID string
  next to the error; its only caller reads the error alone, so the model returns the error.
\<close>

definition lookupIn :: "env \<Rightarrow> string \<Rightarrow> string \<Rightarrow> string \<Rightarrow> (string \<Rightarrow> error) \<Rightarrow> val result" where
  "lookupIn E table strID property wrap =
     (case First E table strID of
        RecordNotFound \<Rightarrow> Ok (VString strID)
      | DbError msg \<Rightarrow> Err (wrap msg)
      | Row r \<Rightarrow>
          (case map_of r property of
             Some prop \<Rightarrow> Ok prop
           | None \<Rightarrow> Ok (VString strID)))"

definition lookupEntity :: "env \<Rightarrow> val \<Rightarrow> EntityLookupConfig \<Rightarrow> val result" where
  "lookupEntity E v config =
     (let strID = sprintfV E v
      in if strID = [] then Err EmptyEntityID
         else if EntityType config = ''manufacturer''
           then lookupIn E ''manufacturer'' strID (Property config) ErrorLookingUpManufacturer
         else if EntityType config = ''category''
           then lookupIn E ''category'' strID (Property config) ErrorLookingUpCategory
         else Err (UnsupportedEntityType (EntityType config)))"

subsection \<open>array\_map\<close>

text \<open>
  \<open>projectSource\<close> is the source-path loop of \<open>transformSingleObject\<close>: \<open>None\<close> means the
  path does not exist and the empty result is returned; a missing last key reads as nil.
  \<open>nestDest\<close> is its destination-path loop, with the unchecked type assertion
  \<open>current[path].(map[string]interface{})\<close> as a possible panic.
\<close>

fun projectSource :: "object \<Rightarrow> string list \<Rightarrow> val option" where
  "projectSource current [] = Some VNil"
| "projectSource current [path] =
     Some (case map_of current path of None \<Rightarrow> VNil | Some v \<Rightarrow> v)"
| "projectSource current (path # paths) =
     (case map_of current path of
        Some (VMap nextMap) \<Rightarrow> projectSource nextMap paths
      | _ \<Rightarrow> None)"

fun nestDest :: "object \<Rightarrow> string list \<Rightarrow> val \<Rightarrow> object result" where
  "nestDest current [] v = Ok current"
| "nestDest current [path] v = Ok (AList.update path v current)"
| "nestDest current (path # paths) v =
     (let current1 = (if map_of current path = None
                      then AList.update path (VMap []) current else current)
      in (case map_of current1 path of
            Some (VMap inner) \<Rightarrow>
              (case nestDest inner paths v of
                 Ok inner' \<Rightarrow> Ok (AList.update path (VMap inner') current1)
               | Err e \<Rightarrow> Err e
               | Panic p \<Rightarrow> Panic p)
          | _ \<Rightarrow> Panic InterfaceConversion))"

definition transformSingleObject :: "object \<Rightarrow> ArrayMapConfig \<Rightarrow> object result" where
  "transformSingleObject item config =
     (case (if SourcePath config = [] then Some (VMap item)
            else projectSource item (Split CHR ''.'' (SourcePath config))) of
        None \<Rightarrow> Ok []
      | Some sourceValue \<Rightarrow>
          (let mappedValue =
                 (case Mapping config of
                    None \<Rightarrow> sourceValue
                  | Some mapping \<Rightarrow>
                      (case sourceValue of
                         VString sourceStr \<Rightarrow>
                           (case map_of mapping sourceStr of
                              Some mapped \<Rightarrow> VString mapped
                            | None \<Rightarrow> sourceValue)
                       | _ \<Rightarrow> sourceValue))
           in if DestPath config = [] then Ok item
              else nestDest [] (Split CHR ''.'' (DestPath config)) mappedValue))"

fun arrayLoop :: "ArrayMapConfig \<Rightarrow> val list \<Rightarrow> (val list) result" where
  "arrayLoop config [] = Ok []"
| "arrayLoop config (item # items) =
     (case item of
        VMap itemMap \<Rightarrow>
          (case transformSingleObject itemMap config of
             Ok destItem \<Rightarrow>
               (case arrayLoop config items of
                  Ok dest \<Rightarrow> Ok (VMap destItem # dest)
                | Err e \<Rightarrow> Err e
                | Panic p \<Rightarrow> Panic p)
           | Err e \<Rightarrow> Err e
           | Panic p \<Rightarrow> Panic p)
      | _ \<Rightarrow> arrayLoop config items)"

definition transformArray :: "val \<Rightarrow> ArrayMapConfig \<Rightarrow> val result" where
  "transformArray v config =
     (case v of
        VSlice sourceArray \<Rightarrow>
          (case arrayLoop config sourceArray of
             Ok dest \<Rightarrow> Ok (VSlice dest)
           | Err e \<Rightarrow> Err e
           | Panic p \<Rightarrow> Panic p)
      | VMap sourceMap \<Rightarrow>
          (case transformSingleObject sourceMap config of
             Ok destItem \<Rightarrow> Ok (VSlice [VMap destItem])
           | Err e \<Rightarrow> Err e
           | Panic p \<Rightarrow> Panic p)
      | _ \<Rightarrow> Err ValueIsNotAnArrayOrObject)"

subsection \<open>metafield\<close>

definition createMetafield :: "env \<Rightarrow> val \<Rightarrow> MetafieldConfig \<Rightarrow> val result" where
  "createMetafield E v config =
     (if Namespace config = [] \<or> Key config = [] then Err MetafieldNamespaceAndKeyRequired
      else
        (let metafieldType = (if MetafieldType config = [] then ''string'' else MetafieldType config);
             metafieldValue =
               (if metafieldType = ''string'' then VString (sprintfV E v)
                else if metafieldType = ''number_integer'' then
                  (case Atoi (sprintfV E v) of
                     Some intVal \<Rightarrow> VInt intVal
                   | None \<Rightarrow> VInt 0)
                else if metafieldType = ''number_decimal'' then
                  (case ParseFloat E (sprintfV E v) of
                     Inr floatVal \<Rightarrow> VFloat floatVal
                   | Inl err \<Rightarrow> VFloat (Float64 0))
                else if metafieldType = ''boolean'' then
                  (let boolStr = ToLower E (sprintfV E v)
                   in VBool (boolStr = ''true'' \<or> boolStr = ''1'' \<or> boolStr = ''yes''))
                else if metafieldType = ''json_string'' then
                  (case Marshal E v of
                     Inl err \<Rightarrow> VString ''{}''
                   | Inr jsonBytes \<Rightarrow> VString jsonBytes)
                else VString (sprintfV E v))
         in Ok (VMap [(''namespace'', VString (Namespace config)),
                      (''key'', VString (Key config)),
                      (''value'', metafieldValue),
                      (''type'', VString metafieldType)])))"

subsection \<open>json\_path\<close>

text \<open>
  \<open>arrayIndexRegex\<close> is \<open>^([^\[]+)\[(\d+)\]$\<close>: a non-empty key without \<open>[\<close>, then \<open>[\<close>,
  one or more decimal digits, \<open>]\<close>, and nothing after it. The result is the pair of the two
  groups.
\<close>

definition arrayIndexRegex :: "string \<Rightarrow> (string \<times> string) option" where
  "arrayIndexRegex component =
     (let i = Index component CHR ''[''
      in if i < 1 then None
         else (let key = take (nat i) component;
                   r = drop (nat i + 1) component
               in if r \<noteq> [] \<and> last r = CHR '']'' \<and> butlast r \<noteq> [] \<and> list_all isDigit (butlast r)
                  then Some (key, butlast r)
                  else None))"

definition extractComponent :: "val \<Rightarrow> string \<Rightarrow> val result" where
  "extractComponent current component =
     (case (case arrayIndexRegex component of
              Some (k, indexStr) \<Rightarrow>
                (case Atoi indexStr of
                   None \<Rightarrow> Err (InvalidArrayIndexInPath component)
                 | Some idx \<Rightarrow> Ok (k, idx))
            | None \<Rightarrow> Ok (component, - 1)) of
        Panic p \<Rightarrow> Panic p
      | Err e \<Rightarrow> Err e
      | Ok (key, index) \<Rightarrow>
          (case current of
             VMap m \<Rightarrow>
               (case map_of m key of
                  Some val \<Rightarrow>
                    if 0 \<le> index then
                      (case val of
                         VSlice arr \<Rightarrow>
                           if index < int (length arr) then Ok (arr ! nat index)
                           else Err (ArrayIndexOutOfBounds index)
                       | _ \<Rightarrow> Err (ValueAtKeyIsNotAnArray key))
                    else Ok val
                | None \<Rightarrow> Err (KeyNotFoundInObject key))
           | VSlice arr \<Rightarrow> Err (CannotAccessPropertyOfArray key)
           | _ \<Rightarrow> Err (CannotAccessPropertyOfNonObject key)))"

fun extractLoop :: "val \<Rightarrow> string list \<Rightarrow> val result" where
  "extractLoop current [] = Ok current"
| "extractLoop current (component # components) =
     (case extractComponent current component of
        Ok v \<Rightarrow> extractLoop v components
      | Err e \<Rightarrow> Err e
      | Panic p \<Rightarrow> Panic p)"

definition extractJsonPath :: "val \<Rightarrow> string \<Rightarrow> val result" where
  "extractJsonPath v path =
     (if path = [] then Ok v else extractLoop v (Split CHR ''.'' path))"

section \<open>GraphQL global IDs\<close>

definition convertToGraphQLGlobalID :: "string \<Rightarrow> string \<Rightarrow> string" where
  "convertToGraphQLGlobalID resourceType ident = ''gid://shopify/'' @ resourceType @ ''/'' @ ident"

definition convertFromGraphQLGlobalID :: "string \<Rightarrow> string" where
  "convertFromGraphQLGlobalID globalID =
     (let parts = Split CHR ''/'' globalID
      in if length parts < 4 then globalID else last parts)"


section \<open>The transformation dispatcher\<close>

definition applyTransformation :: "env \<Rightarrow> val \<Rightarrow> FieldMapping \<Rightarrow> val result" where
  "applyTransformation E v mapping =
     (if TransformType mapping = TransformationTypeNone then Ok v
      else if TransformType mapping = TransformationTypeFormat then
        (case UnmarshalFormat E (TransformConfig mapping) of
           Inl err \<Rightarrow> Err (InvalidTransformConfig err)
         | Inr config \<Rightarrow>
             (case v of
                VString str \<Rightarrow>
                  (case TimeParse E (SourceFormat config) str of
                     Inl err \<Rightarrow> Err (ErrorParsingDate err)
                   | Inr t \<Rightarrow> Ok (VString (TimeFormat E t (DestFormat config))))
              | _ \<Rightarrow> Err ValueIsNotAString))
      else if TransformType mapping = TransformationTypeConvert then
        (case UnmarshalConvert E (TransformConfig mapping) of
           Inl err \<Rightarrow> Err (InvalidTransformConfig err)
         | Inr config \<Rightarrow>
             if ConvertType config = ''string'' then Ok (VString (sprintfV E v))
             else if ConvertType config = ''int'' then
               (case v of
                  VString str \<Rightarrow>
                    (case Atoi str of
                       None \<Rightarrow> Err (ErrorConvertingToInt str)
                     | Some i \<Rightarrow> Ok (VInt i))
                | _ \<Rightarrow> Err ValueIsNotAString)
             else if ConvertType config = ''float'' then
               (case v of
                  VString str \<Rightarrow>
                    (case ParseFloat E str of
                       Inl err \<Rightarrow> Err (ErrorConvertingToFloat err)
                     | Inr f \<Rightarrow> Ok (VFloat f))
                | _ \<Rightarrow> Err ValueIsNotAString)
             else if ConvertType config = ''bool'' then
               (case v of
                  VString str \<Rightarrow>
                    (case ParseBool str of
                       None \<Rightarrow> Err (ErrorConvertingToBool str)
                     | Some b \<Rightarrow> Ok (VBool b))
                | _ \<Rightarrow> Err ValueIsNotAString)
             else Err (UnsupportedConversionType (ConvertType config)))
      else if TransformType mapping = TransformationTypeMap then
        (case UnmarshalMap E (TransformConfig mapping) of
           Inl err \<Rightarrow> Err (InvalidTransformConfig err)
         | Inr config \<Rightarrow>
             (case map_of config (sprintfV E v) of
                Some mappedValue \<Rightarrow> Ok mappedValue
              | None \<Rightarrow>
                  (case map_of config ''_default'' of
                     Some defaultValue \<Rightarrow> Ok defaultValue
                   | None \<Rightarrow> Err (NoMappingFound v))))
      else if TransformType mapping = TransformationTypeTemplate then
        (case UnmarshalTemplate E (TransformConfig mapping) of
           Inl err \<Rightarrow> Err (InvalidTransformConfig err)
         | Inr config \<Rightarrow>
             Ok (VString (ReplaceAll (Template config) ''{{value}}'' (sprintfV E v))))
      else if TransformType mapping = TransformationTypeGraphQLID then
        (case UnmarshalGraphQLID E (TransformConfig mapping) of
           Inl err \<Rightarrow> Err (InvalidTransformConfig err)
         | Inr config \<Rightarrow>
             (case v of
                VString str \<Rightarrow>
                  if Direction config = ''to_global''
                    then Ok (VString (convertToGraphQLGlobalID (ResourceType config) str))
                  else if Direction config = ''from_global''
                    then Ok (VString (convertFromGraphQLGlobalID str))
                  else Err (InvalidDirection (Direction config))
              | _ \<Rightarrow> Err ValueIsNotAString))
      else if TransformType mapping = TransformationTypeArrayMap then
        (case UnmarshalArrayMap E (TransformConfig mapping) of
           Inl err \<Rightarrow> Err (InvalidTransformConfig err)
         | Inr config \<Rightarrow> transformArray v config)
      else if TransformType mapping = TransformationTypeJsonPath then
        (case UnmarshalJsonPath E (TransformConfig mapping) of
           Inl err \<Rightarrow> Err (InvalidTransformConfig err)
         | Inr config \<Rightarrow> extractJsonPath v (Path config))
      else if TransformType mapping = TransformationTypeMediaMap then
        (case UnmarshalMediaMap E (TransformConfig mapping) of
           Inl err \<Rightarrow> Err (InvalidTransformConfig err)
         | Inr config \<Rightarrow> transformMedia E v config)
      else if TransformType mapping = TransformationTypeMetafield then
        (case UnmarshalMetafield E (TransformConfig mapping) of
           Inl err \<Rightarrow> Err (InvalidTransformConfig err)
         | Inr config \<Rightarrow> createMetafield E v config)
      else if TransformType mapping = TransformationTypeEntityLookup then
        (case UnmarshalEntityLookup E (TransformConfig mapping) of
           Inl err \<Rightarrow> Err (InvalidTransformConfig err)
         | Inr config \<Rightarrow> lookupEntity E v config)
      else Err (UnsupportedTransformationType (TransformType mapping)))"

section \<open>The mapping pipeline\<close>

text \<open>
  \<open>MappingResult\<close> has a \<open>Data\<close> map and an \<open>Error\<close>, either of which may be nil.
  \<open>TransformData\<close> returns a pointer to a \<open>MappingResult\<close> or an error of its own (\<open>Err\<close>);
  a panic inside the loop unwinds through it.
\<close>

record MappingResult =
  Data :: "object option"
  Error :: "error option"

text \<open>
  One iteration of the loop over the field mappings: \<open>Continue\<close> carries the destination
  object into the next iteration (also for a skipped rule), \<open>Return\<close> leaves the function.
\<close>

datatype iteration = Continue object | Return MappingResult | Unwind panic

definition transformAndSet :: "env \<Rightarrow> object \<Rightarrow> FieldMapping \<Rightarrow> val \<Rightarrow> iteration" where
  "transformAndSet E destObj mapping sourceValue =
     (case applyTransformation E sourceValue mapping of
        Panic p \<Rightarrow> Unwind p
      | Err err \<Rightarrow>
          Return \<lparr>Data = None, Error = Some (ErrorTransformingField (SourceField mapping) err)\<rparr>
      | Ok transformedValue \<Rightarrow>
          (case setNestedValue destObj (DestField mapping) transformedValue of
             (destObj', Panic p) \<Rightarrow> Unwind p
           | (destObj', Err err) \<Rightarrow>
               Return \<lparr>Data = None, Error = Some (ErrorSettingField (DestField mapping) err)\<rparr>
           | (destObj', Ok u) \<Rightarrow> Continue destObj'))"

definition applyMapping :: "env \<Rightarrow> object \<Rightarrow> object \<Rightarrow> FieldMapping \<Rightarrow> iteration" where
  "applyMapping E sourceObj destObj mapping =
     (case getNestedValue sourceObj (SourceField mapping) of
        Panic p \<Rightarrow> Unwind p
      | Err err \<Rightarrow>
          if IsRequired mapping
            then Return \<lparr>Data = None, Error = Some (RequiredFieldNotFound (SourceField mapping))\<rparr>
          else if DefaultValue mapping \<noteq> []
            then transformAndSet E destObj mapping (VString (DefaultValue mapping))
          else Continue destObj
      | Ok sourceValue \<Rightarrow> transformAndSet E destObj mapping sourceValue)"

fun transformLoop :: "env \<Rightarrow> object \<Rightarrow> object \<Rightarrow> FieldMapping list \<Rightarrow> MappingResult result" where
  "transformLoop E sourceObj destObj [] = Ok \<lparr>Data = Some destObj, Error = None\<rparr>"
| "transformLoop E sourceObj destObj (mapping # fieldMappings) =
     (case applyMapping E sourceObj destObj mapping of
        Continue destObj' \<Rightarrow> transformLoop E sourceObj destObj' fieldMappings
      | Return r \<Rightarrow> Ok r
      | Unwind p \<Rightarrow> Panic p)"

text \<open>
  The loop reads the same \<open>sourceObj\<close> in every iteration, as the Go text does. In Go the
  objects are references: a rule that stores a map or slice of the source in \<open>destObj\<close> as it
  is (the transformations \<open>none\<close>, \<open>json_path\<close> and \<open>array_map\<close> hand parts of their input
  through) makes a later write inside that value a write to the source as well. The loop above
  describes the code for the runs in which this does not happen; \<open>aliasFree\<close> below is the
  condition, and every statement about a run of more than one rule carries it.
\<close>

definition TransformData :: "env \<Rightarrow> nat \<Rightarrow> string \<Rightarrow> MappingResult result" where
  "TransformData E dataflowID sourceData =
     (case ListFieldMappings E dataflowID of
        Inl err \<Rightarrow> Err (ErrorGettingFieldMappings err)
      | Inr fieldMappings \<Rightarrow>
          (case UnmarshalSource E sourceData of
             Inl err \<Rightarrow> Err (ErrorParsingSourceData err)
           | Inr sourceObj \<Rightarrow> transformLoop E sourceObj [] fieldMappings))"

text \<open>
  \<open>ruleInput\<close> is the value a rule hands to its transformation: the source value when the
  source field is found, the default value when it is absent, the rule is not required and a
  default is given; otherwise the rule has no input (it aborts the run or is skipped).
\<close>

definition ruleInput :: "object \<Rightarrow> FieldMapping \<Rightarrow> val option" where
  "ruleInput sourceObj mapping =
     (case getNestedValue sourceObj (SourceField mapping) of
        Ok sourceValue \<Rightarrow> Some sourceValue
      | Err err \<Rightarrow>
          if IsRequired mapping then None
          else if DefaultValue mapping \<noteq> [] then Some (VString (DefaultValue mapping))
          else None
      | Panic p \<Rightarrow> None)"

text \<open>
  A written value shares nothing with the source when it is a scalar, or when the
  transformation builds its result from scratch: \<open>map\<close> returns a value of its freshly decoded
  config, \<open>media_map\<close> and \<open>metafield\<close> build new records of strings and numbers, and
  \<open>entity_lookup\<close> returns a column of a freshly read row or a string. A ruleset is alias-free
  on a source document when every rule that writes writes such a value. Then the destination
  holds only maps and slices that \<open>setNestedValue\<close> or a transformation made for it, each
  reachable along one path, the source document is never written, and the value model follows
  the code.
\<close>

fun isScalar :: "val \<Rightarrow> bool" where
  "isScalar (VSlice arr) = False"
| "isScalar (VMap m) = False"
| "isScalar v = True"

definition buildsFreshValue :: "TransformationType \<Rightarrow> bool" where
  "buildsFreshValue t =
     (t = TransformationTypeMap \<or> t = TransformationTypeMediaMap \<or>
      t = TransformationTypeMetafield \<or> t = TransformationTypeEntityLookup)"

definition writesUnshared :: "env \<Rightarrow> object \<Rightarrow> FieldMapping \<Rightarrow> bool" where
  "writesUnshared E sourceObj mapping =
     (case ruleInput sourceObj mapping of
        None \<Rightarrow> True
      | Some v \<Rightarrow>
          (case applyTransformation E v mapping of
             Ok transformedValue \<Rightarrow>
               isScalar transformedValue \<or> buildsFreshValue (TransformType mapping)
           | Err err \<Rightarrow> True
           | Panic p \<Rightarrow> True))"

definition aliasFree :: "env \<Rightarrow> object \<Rightarrow> FieldMapping list \<Rightarrow> bool" where
  "aliasFree E sourceObj fieldMappings = list_all (writesUnshared E sourceObj) fieldMappings"

section \<open>Migration lifecycle\<close>

type_synonym MigrationStatus = string

definition MigrationStatusPending :: MigrationStatus where
  "MigrationStatusPending = ''pending''"
definition MigrationStatusInProgress :: MigrationStatus where
  "MigrationStatusInProgress = ''in_progress''"
definition MigrationStatusSuccess :: MigrationStatus where
  "MigrationStatusSuccess = ''success''"
definition MigrationStatusFailed :: MigrationStatus where
  "MigrationStatusFailed = ''failed''"

text \<open>
  The persisted fields of \<open>models.MigrationLog\<close>; \<open>CompletedAt\<close> is a nullable timestamp
  (a clock reading, in whatever unit the clock has).
\<close>

record MigrationLog =
  LogID :: nat
  LogDataflowID :: nat
  Status :: MigrationStatus
  SourceIdentifier :: string
  DestIdentifier :: string
  ExecutionARN :: string
  SourcePayload :: string
  TransformedPayload :: string
  ErrorMessage :: string
  CompletedAt :: "nat option"

text \<open>The table of migration logs, keyed by primary key.\<close>

type_synonym logTable = "nat \<Rightarrow> MigrationLog option"

text \<open>
  The body of the loop of \<open>HandleShopwareWebhook\<close> for one matching dataflow is three steps
  on the table: \<open>db.Create\<close> inserts the new log in \<open>pending\<close>; \<open>StartExecution\<close> starts the
  external run; \<open>db.Save\<close> then writes the handler's own copy of the log, with the status and
  the fields that the outcome of the start gave it. \<open>Save\<close> writes every field of that copy,
  whatever the row holds by then: nothing orders it against a status callback of the run that
  has just been started.

  \<open>newID\<close> is the primary key the database assigns (\<open>None\<close> when the insert fails and the
  dataflow is skipped), \<open>started\<close> the outcome of \<open>StartExecution\<close> (\<open>Inl\<close> its error message,
  \<open>Inr\<close> the execution ARN), \<open>saved\<close> whether \<open>db.Save\<close> succeeds (the handler ignores its
  error).
\<close>

definition createLog ::
  "nat option \<Rightarrow> nat \<Rightarrow> string \<Rightarrow> string \<Rightarrow> logTable \<Rightarrow> logTable \<times> MigrationLog option" where
  "createLog newID dataflowID sourceID webhookData db =
     (case newID of
        None \<Rightarrow> (db, None)
      | Some i \<Rightarrow>
          (let migrationLog =
                 \<lparr>LogID = i, LogDataflowID = dataflowID, Status = MigrationStatusPending,
                  SourceIdentifier = sourceID, DestIdentifier = [], ExecutionARN = [],
                  SourcePayload = webhookData, TransformedPayload = [], ErrorMessage = [],
                  CompletedAt = None\<rparr>
           in (db(i \<mapsto> migrationLog), Some migrationLog)))"

definition handoff :: "string + string \<Rightarrow> MigrationLog \<Rightarrow> MigrationLog" where
  "handoff started migrationLog =
     (case started of
        Inl err \<Rightarrow> migrationLog\<lparr>Status := MigrationStatusFailed, ErrorMessage := err\<rparr>
      | Inr executionARN \<Rightarrow>
          migrationLog\<lparr>Status := MigrationStatusInProgress, ExecutionARN := executionARN\<rparr>)"

definition saveHandoff ::
  "bool \<Rightarrow> string + string \<Rightarrow> MigrationLog \<Rightarrow> logTable \<Rightarrow> logTable" where
  "saveHandoff saved started migrationLog db =
     (if saved then db(LogID migrationLog \<mapsto> handoff started migrationLog) else db)"

text \<open>The three steps with nothing in between.\<close>

definition processDataflow ::
  "nat option \<Rightarrow> string + string \<Rightarrow> bool \<Rightarrow> nat \<Rightarrow> string \<Rightarrow> string \<Rightarrow> logTable \<Rightarrow> logTable" where
  "processDataflow newID started saved dataflowID sourceID webhookData db =
     (case createLog newID dataflowID sourceID webhookData db of
        (db1, None) \<Rightarrow> db1
      | (db1, Some migrationLog) \<Rightarrow> saveHandoff saved started migrationLog db1)"

text \<open>The body of the status callback, as bound from JSON by \<open>UpdateMigrationStatus\<close>.\<close>

record StatusRequest =
  MigrationID :: nat
  ReqStatus :: MigrationStatus
  ReqDestIdentifier :: string
  ReqErrorMessage :: string
  ReqTransformedData :: string

definition applyStatus :: "nat \<Rightarrow> StatusRequest \<Rightarrow> MigrationLog \<Rightarrow> MigrationLog" where
  "applyStatus now request migrationLog =
     (let l1 = migrationLog\<lparr>Status := ReqStatus request\<rparr>;
          l2 = (if ReqDestIdentifier request \<noteq> []
                then l1\<lparr>DestIdentifier := ReqDestIdentifier request\<rparr> else l1);
          l3 = (if ReqErrorMessage request \<noteq> []
                then l2\<lparr>ErrorMessage := ReqErrorMessage request\<rparr> else l2);
          l4 = (if 0 < length (ReqTransformedData request)
                then l3\<lparr>TransformedPayload := ReqTransformedData request\<rparr> else l3)
      in if ReqStatus request = MigrationStatusSuccess \<or> ReqStatus request = MigrationStatusFailed
         then l4\<lparr>CompletedAt := Some now\<rparr> else l4)"

text \<open>
  \<open>UpdateMigrationStatus\<close> for a request that was bound successfully: the HTTP status it
  answers with and the table it leaves. \<open>saved\<close> tells whether \<open>db.Save\<close> succeeds. The read
  (\<open>db.First\<close>) and the write are one step here; the status that the write stores comes from
  the request alone.
\<close>

definition UpdateMigrationStatus ::
  "bool \<Rightarrow> nat \<Rightarrow> StatusRequest \<Rightarrow> logTable \<Rightarrow> nat \<times> logTable" where
  "UpdateMigrationStatus saved now request db =
     (case db (MigrationID request) of
        None \<Rightarrow> (404, db)
      | Some migrationLog \<Rightarrow>
          if saved then (200, db(MigrationID request \<mapsto> applyStatus now request migrationLog))
          else (500, db))"

text \<open>A run of status callbacks, each with its own \<open>saved\<close> flag and clock reading.\<close>

fun runCallbacks :: "(bool \<times> nat \<times> StatusRequest) list \<Rightarrow> logTable \<Rightarrow> logTable" where
  "runCallbacks [] db = db"
| "runCallbacks ((saved, now, request) # callbacks) db =
     runCallbacks callbacks (snd (UpdateMigrationStatus saved now request db))"

definition isTerminal :: "MigrationStatus \<Rightarrow> bool" where
  "isTerminal s = (s = MigrationStatusSuccess \<or> s = MigrationStatusFailed)"

text \<open>
  The writes to the table that can follow one another in any order: a status callback, and the
  \<open>Save\<close> with which a handler ends its handoff. \<open>eventStatus\<close> is the status the write carries.
\<close>

datatype event =
    Callback bool nat StatusRequest
  | HandlerSave bool "string + string" MigrationLog

fun applyEvent :: "event \<Rightarrow> logTable \<Rightarrow> logTable" where
  "applyEvent (Callback saved now request) db = snd (UpdateMigrationStatus saved now request db)"
| "applyEvent (HandlerSave saved started migrationLog) db =
     saveHandoff saved started migrationLog db"

fun runEvents :: "event list \<Rightarrow> logTable \<Rightarrow> logTable" where
  "runEvents [] db = db"
| "runEvents (ev # events) db = runEvents events (applyEvent ev db)"

fun eventStatus :: "event \<Rightarrow> MigrationStatus" where
  "eventStatus (Callback saved now request) = ReqStatus request"
| "eventStatus (HandlerSave saved started migrationLog) = Status (handoff started migrationLog)"

text \<open>
  The paths on which the loop of \<open>setNestedValue\<close> enters every array element it should: no
  indexed part is the second-to-last part.
\<close>

fun indexedPartsEnterable :: "string list \<Rightarrow> bool" where
  "indexedPartsEnterable (part # next # rest) =
     ((isArrayAccess part \<longrightarrow> rest \<noteq> []) \<and> indexedPartsEnterable (next # rest))"
| "indexedPartsEnterable parts = True"

section \<open>An environment for the concrete examples\<close>

text \<open>
  The examples below fix the environment: an empty database, decoders that reject their
  input, and renderings that are never reached. Each example overrides the parts it uses.
\<close>

definition emptyEnv :: env where
  "emptyEnv =
     \<lparr>ListFieldMappings = (\<lambda>dataflowID. Inr []),
      UnmarshalSource = (\<lambda>s. Inl ''unexpected end of JSON input''),
      UnmarshalFormat = (\<lambda>s. Inl ''unexpected end of JSON input''),
      UnmarshalConvert = (\<lambda>s. Inl ''unexpected end of JSON input''),
      UnmarshalMap = (\<lambda>s. Inl ''unexpected end of JSON input''),
      UnmarshalTemplate = (\<lambda>s. Inl ''unexpected end of JSON input''),
      UnmarshalGraphQLID = (\<lambda>s. Inl ''unexpected end of JSON input''),
      UnmarshalArrayMap = (\<lambda>s. Inl ''unexpected end of JSON input''),
      UnmarshalJsonPath = (\<lambda>s. Inl ''unexpected end of JSON input''),
      UnmarshalMediaMap = (\<lambda>s. Inl ''unexpected end of JSON input''),
      UnmarshalMetafield = (\<lambda>s. Inl ''unexpected end of JSON input''),
      UnmarshalEntityLookup = (\<lambda>s. Inl ''unexpected end of JSON input''),
      Marshal = (\<lambda>v. Inl ''unsupported value''),
      TimeParse = (\<lambda>layout s. Inl ''cannot parse''),
      TimeFormat = (\<lambda>t layout. []),
      ParseFloat = (\<lambda>s. Inl ''invalid syntax''),
      FormatV = (\<lambda>v. []),
      FormatS = (\<lambda>v. []),
      ToLower = (\<lambda>s. s),
      First = (\<lambda>table ident. RecordNotFound)\<rparr>"

definition rule :: "string \<Rightarrow> string \<Rightarrow> bool \<Rightarrow> TransformationType \<Rightarrow> string \<Rightarrow> FieldMapping" where
  "rule src dst required ty config =
     \<lparr>ID = 1, DataflowID = 1, SourceField = src, DestField = dst, IsRequired = required,
      DefaultValue = [], TransformType = ty, TransformConfig = config\<rparr>"

text \<open>A decoder that knows one text.\<close>

definition decodes :: "string \<Rightarrow> 'a \<Rightarrow> string \<Rightarrow> string + 'a" where
  "decodes text x s = (if s = text then Inr x else Inl ''invalid character'')"

text \<open>
  A shop with one dataflow: its field mappings are \<open>mappings\<close>, the webhook delivers the
  product \<open>{"name": "Shirt", "taxId": "42"}\<close>, and one entity-lookup config is known.
\<close>

definition shirtData :: string where
  "shirtData = ''{\"name\": \"Shirt\", \"taxId\": \"42\"}''"

definition shirtObj :: object where
  "shirtObj = [(''name'', VString ''Shirt''), (''taxId'', VString ''42'')]"

definition productLookup :: string where
  "productLookup = ''{\"entity_type\": \"product\", \"property\": \"name\"}''"

definition shopEnv :: "FieldMapping list \<Rightarrow> env" where
  "shopEnv mappings =
     emptyEnv\<lparr>ListFieldMappings := (\<lambda>dataflowID. Inr mappings),
              UnmarshalSource := decodes shirtData shirtObj,
              UnmarshalEntityLookup :=
                decodes productLookup \<lparr>EntityType = ''product'', Property = ''name''\<rparr>\<rparr>"

definition nameRule :: FieldMapping where
  "nameRule = rule ''name'' ''title'' True TransformationTypeNone []"

definition priceRule :: FieldMapping where
  "priceRule = rule ''price'' ''price'' True TransformationTypeNone []"


definition taxRule :: FieldMapping where
  "taxRule = rule ''taxId'' ''tax'' False TransformationTypeEntityLookup productLookup"

definition taxCopyRule :: FieldMapping where
  "taxCopyRule = rule ''taxId'' ''tax.id'' False TransformationTypeNone []"

definition mediaItem :: "string \<Rightarrow> string \<Rightarrow> val" where
  "mediaItem url alt = VMap [(''url'', VString url), (''alt'', VString alt)]"

definition statusRequest :: "nat \<Rightarrow> MigrationStatus \<Rightarrow> StatusRequest" where
  "statusRequest i s =
     \<lparr>MigrationID = i, ReqStatus = s, ReqDestIdentifier = [], ReqErrorMessage = [],
      ReqTransformedData = []\<rparr>"

text \<open>
  Log 1 as the handler creates it, the table right after the insert, the table after a handoff
  that nothing interrupted (log 1 is in progress), and that table after the callback
  \<open>success\<close>.
\<close>

definition pendingLog :: MigrationLog where
  "pendingLog =
     \<lparr>LogID = 1, LogDataflowID = 7, Status = MigrationStatusPending,
      SourceIdentifier = ''p-1'', DestIdentifier = [], ExecutionARN = [],
      SourcePayload = ''{}'', TransformedPayload = [], ErrorMessage = [],
      CompletedAt = None\<rparr>"

definition createdLog :: "logTable \<times> MigrationLog option" where
  "createdLog = createLog (Some 1) 7 ''p-1'' ''{}'' Map.empty"


definition handedOff :: logTable where
  "handedOff = processDataflow (Some 1) (Inr ''arn:1'') True 7 ''p-1'' ''{}'' Map.empty"

definition succeeded :: logTable where
  "succeeded = snd (UpdateMigrationStatus True 10 (statusRequest 1 MigrationStatusSuccess) handedOff)"

section \<open>Properties\<close>

lemmas TransformationType_defs =
  TransformationTypeNone_def TransformationTypeFormat_def TransformationTypeConvert_def
  TransformationTypeMap_def TransformationTypeTemplate_def TransformationTypeGraphQLID_def
  TransformationTypeArrayMap_def TransformationTypeJsonPath_def
  TransformationTypeConditional_def TransformationTypeMediaMap_def
  TransformationTypeMetafield_def TransformationTypeEntityLookup_def

subsection \<open>Splitting strings\<close>

lemma Split_not_Nil: "Split sep s \<noteq> []"
  by (induction s) (auto split: list.splits)

lemma Split_no_sep: "sep \<notin> set s \<Longrightarrow> Split sep s = [s]"
  by (induction s) auto

lemma Split_append_sep: "Split sep (xs @ sep # ys) = Split sep xs @ Split sep ys"
  by (induction xs) (auto split: list.splits simp: Split_not_Nil)

lemma last_Split_append_sep: "last (Split sep (xs @ sep # ys)) = last (Split sep ys)"
  by (simp add: Split_append_sep Split_not_Nil)

lemma length_Split: "length (Split sep s) = Suc (length (filter (\<lambda>c. c = sep) s))"
  by (induction s) (auto split: list.splits simp: Split_not_Nil)

subsection \<open>GraphQL global IDs\<close>

lemma from_to_global:
  assumes "CHR ''/'' \<notin> set ident"
  shows "convertFromGraphQLGlobalID (convertToGraphQLGlobalID resourceType ident) = ident"
proof -
  let ?g = "convertToGraphQLGlobalID resourceType ident"
  have g: "?g = (''gid://shopify/'' @ resourceType) @ CHR ''/'' # ident"
    by (simp add: convertToGraphQLGlobalID_def)
  have "4 \<le> length (Split CHR ''/'' ?g)"
    by (simp add: length_Split convertToGraphQLGlobalID_def)
  moreover have "last (Split CHR ''/'' ?g) = ident"
    unfolding g last_Split_append_sep using assms by (simp add: Split_no_sep)
  ultimately show ?thesis
    by (simp add: convertFromGraphQLGlobalID_def Let_def)
qed

text \<open>
  Claim C5. Converting an ID that is non-empty and contains no \<open>/\<close> to a global ID and back
  gives the ID again, for every resource type; and a string that splits on \<open>/\<close> into fewer
  than four segments is returned unchanged by \<open>convertFromGraphQLGlobalID\<close>.
\<close>

theorem graphql_id_roundtrip_and_leniency:
  "(ident \<noteq> [] \<and> CHR ''/'' \<notin> set ident \<longrightarrow>
      convertFromGraphQLGlobalID (convertToGraphQLGlobalID resourceType ident) = ident) \<and>
   (length (Split CHR ''/'' s) < 4 \<longrightarrow> convertFromGraphQLGlobalID s = s)"
proof (intro conjI impI)
  assume "ident \<noteq> [] \<and> CHR ''/'' \<notin> set ident"
  then show "convertFromGraphQLGlobalID (convertToGraphQLGlobalID resourceType ident) = ident"
    by (simp add: from_to_global)
next
  assume "length (Split CHR ''/'' s) < 4"
  then show "convertFromGraphQLGlobalID s = s"
    by (simp add: convertFromGraphQLGlobalID_def)
qed

theorem graphql_id_roundtrip_and_leniency_witness:
  "''42'' \<noteq> [] \<and> CHR ''/'' \<notin> set ''42'' \<and>
   convertFromGraphQLGlobalID (convertToGraphQLGlobalID ''Product'' ''42'') = ''42'' \<and>
   length (Split CHR ''/'' ''gid://42'') < 4 \<and>
   convertFromGraphQLGlobalID ''gid://42'' = ''gid://42''"
  using graphql_id_roundtrip_and_leniency [of "''42''" "''Product''" "''gid://42''"]
  by simp

subsection \<open>The nested path accessor\<close>

text \<open>The two examples of the accessor's contract.\<close>

lemma set_seo_title_example:
  "setNestedValue [] ''seo.title'' (VString ''Foo'')
     = ([(''seo'', VMap [(''title'', VString ''Foo'')])], Ok ())"
  by code_simp

lemma get_variant_price_example:
  "getNestedValue [(''variants'', VSlice [VMap [(''price'', VString ''9.99'')]])]
     ''variants[0].price'' = Ok (VString ''9.99'')"
  by code_simp

lemma map_of_update_same: "map_of (AList.update k v al) k = Some v"
  by (simp add: update_conv')

lemma Atoi_range: "Atoi s = Some n \<Longrightarrow> - (2 ^ 63) \<le> n \<and> n < 2 ^ 63"
  by (auto simp: Atoi_def Let_def split: if_splits)

lemma parseArrayAccess_range:
  "parseArrayAccess part = Ok (key, index) \<Longrightarrow> - (2 ^ 63) \<le> index \<and> index < 2 ^ 63"
  by (auto simp: parseArrayAccess_def dest: Atoi_range split: result.splits option.splits)

lemma wrap64_id: "- (2 ^ 63) \<le> x \<Longrightarrow> x < 2 ^ 63 \<Longrightarrow> wrap64 x = x"
  by (simp add: wrap64_def)

lemma wrap64_max: "wrap64 (2 ^ 63) = - (2 ^ 63)"
  by (simp add: wrap64_def)

text \<open>After \<open>ensureArray\<close> the field is a slice that has the index (if it is not negative).\<close>

lemma ensureArray_Ok:
  assumes "ensureArray current key index = (current1, Ok arr)"
    and "0 \<le> index" and "index < 2 ^ 63"
  shows "map_of current1 key = Some (VSlice arr) \<and> index < int (length arr)"
proof (cases "index + 1 < 2 ^ 63")
  case True
  then have w: "wrap64 (index + 1) = index + 1"
    using assms(2) by (simp add: wrap64_id)
  show ?thesis
    using assms(1,2)
    by (auto simp: ensureArray_def w makeSlice_def map_of_update_same Let_def
        split: if_splits option.splits val.splits result.splits)
next
  case False
  with assms(3) have "index + 1 = 2 ^ 63" by simp
  then have w: "wrap64 (index + 1) = - (2 ^ 63)"
    using wrap64_max by simp
  show ?thesis
    using assms(1,2)
    by (auto simp: ensureArray_def w makeSlice_def map_of_update_same Let_def
        split: if_splits option.splits val.splits result.splits)
qed

text \<open>
  Where the accessor does round-trip: on every path none of whose indexed parts is the
  second-to-last part, a successful \<open>setNestedValue\<close> is read back by \<open>getNestedValue\<close>.
\<close>

lemma setLoop_roundtrip:
  "parts \<noteq> [] \<Longrightarrow> indexedPartsEnterable parts \<Longrightarrow>
   setLoop current parts v = (current', Ok ()) \<Longrightarrow>
   getLoop (VMap current') parts = Ok v"
proof (induction parts arbitrary: current current')
  case Nil
  then show ?case by simp
next
  case (Cons part ps)
  show ?case
  proof (cases ps)
    case Nil
    show ?thesis
    proof (cases "isArrayAccess part")
      case False
      with Cons.prems Nil show ?thesis
        by (auto simp: setLast_def getPart_def map_of_update_same)
    next
      case True
      from Cons.prems(3) Nil True obtain key index current1 arr where
        pa: "parseArrayAccess part = Ok (key, index)" and
        ea: "ensureArray current key index = (current1, Ok arr)" and
        nonneg: "0 \<le> index" and
        c': "current' = AList.update key (VSlice (arr[nat index := v])) current1"
        by (auto simp: setLast_def split: result.splits prod.splits if_splits)
      from ensureArray_Ok [OF ea nonneg] parseArrayAccess_range [OF pa]
      have "index < int (length arr)" by simp
      with True pa nonneg c' Nil show ?thesis
        by (simp add: getPart_def map_of_update_same)
    qed
  next
    case (Cons q rest)
    show ?thesis
    proof (cases "isArrayAccess part")
      case False
      let ?c1 = "if map_of current part = None then AList.update part (VMap []) current
                 else current"
      from Cons.prems(3) False Cons obtain nextMap nextMap' where
        nm: "map_of ?c1 part = Some (VMap nextMap)" and
        rec: "setLoop nextMap ps v = (nextMap', Ok ())" and
        c': "current' = AList.update part (VMap nextMap') ?c1"
        by (auto simp: Let_def split: option.splits val.splits prod.splits if_splits)
      have "getLoop (VMap nextMap') ps = Ok v"
        using Cons.IH [OF _ _ rec] Cons.prems(2) Cons by simp
      then show ?thesis
        using False c' by (simp add: getPart_def map_of_update_same)
    next
      case True
      with Cons.prems(2) Cons have rest: "rest \<noteq> []" by simp
      from Cons.prems(3) Cons True rest obtain key index current1 arr nextMap nextMap' where
        pa: "parseArrayAccess part = Ok (key, index)" and
        ea: "ensureArray current key index = (current1, Ok arr)" and
        nonneg: "0 \<le> index" and
        rec: "setLoop nextMap ps v = (nextMap', Ok ())" and
        c': "current' = AList.update key (VSlice (arr[nat index := VMap nextMap'])) current1"
        by (auto simp: split: result.splits prod.splits if_splits val.splits)
      from ensureArray_Ok [OF ea nonneg] parseArrayAccess_range [OF pa]
      have len: "index < int (length arr)" by simp
      have "getLoop (VMap nextMap') ps = Ok v"
        using Cons.IH [OF _ _ rec] Cons.prems(2) Cons by simp
      with True pa nonneg c' len show ?thesis
        by (simp add: getPart_def map_of_update_same)
    qed
  qed
qed

lemma roundtrip_unless_index_second_to_last:
  assumes "indexedPartsEnterable (Split CHR ''.'' path)"
    and "setNestedValue obj path v = (obj', Ok ())"
  shows "getNestedValue obj' path = Ok v"
  using assms setLoop_roundtrip [of "Split CHR ''.'' path" obj v obj']
  by (simp add: setNestedValue_def getNestedValue_def Split_not_Nil)

text \<open>
  Claim C1 (set then get). The destination path \<open>variants[0].price\<close> is not present in the
  empty object. \<open>setNestedValue\<close> succeeds on it, but it leaves the array element nil and
  writes \<open>price\<close> into the root object: the loop enters the array element only when the indexed
  part is followed by at least two more parts (\<open>i < len(parts)-2\<close>). Reading the same path back
  with \<open>getNestedValue\<close> then fails.
\<close>

theorem setNestedValue_indexed_parent_lost:
  "setNestedValue [] ''variants[0].price'' (VString ''9.99'') =
     ([(''variants'', VSlice [VNil]), (''price'', VString ''9.99'')], Ok ()) \<and>
   getNestedValue [(''variants'', VSlice [VNil]), (''price'', VString ''9.99'')] ''variants[0].price''
     = Err (ParentIsNotAnObject ''price'')"
  by code_simp

text \<open>
  Claim C10 (negative indices). \<open>Atoi\<close> accepts \<open>-1\<close>; \<open>setNestedValue\<close> has no check for a
  negative index (as \<open>getNestedValue\<close> has), creates an empty slice for the key and then
  stores at index \<open>-1\<close>, which panics.
\<close>

theorem setNestedValue_negative_index_panics:
  "setNestedValue [] ''items[-1]'' v = ([(''items'', VSlice [])], Panic IndexOutOfRange)"
  by (simp add: setNestedValue_def setLast_def isArrayAccess_def Contains_def parseArrayAccess_def
      sliceString_def Atoi_def isDigit_def digitsValue_def ensureArray_def makeSlice_def wrap64_def)

subsection \<open>The mapping pipeline\<close>

lemma applyMapping_Return:
  "applyMapping E src dst m = Return r \<Longrightarrow> Data r = None \<and> Error r \<noteq> None"
  by (auto simp: applyMapping_def transformAndSet_def split: result.splits if_splits prod.splits)

text \<open>When the rules in \<open>before\<close> all complete, the loop goes on with what they built.\<close>

lemma transformLoop_append:
  "transformLoop E src dst before = Ok \<lparr>Data = Some dst', Error = None\<rparr> \<Longrightarrow>
   transformLoop E src dst (before @ rest) = transformLoop E src dst' rest"
proof (induction before arbitrary: dst)
  case Nil
  then show ?case by simp
next
  case (Cons m ms)
  show ?case
  proof (cases "applyMapping E src dst m")
    case (Continue d)
    with Cons show ?thesis by simp
  next
    case (Return r')
    with Cons.prems have "r' = \<lparr>Data = Some dst', Error = None\<rparr>" by simp
    with Return applyMapping_Return [of E src dst m r'] show ?thesis by simp
  next
    case (Unwind p)
    with Cons.prems show ?thesis by simp
  qed
qed

lemma TransformData_after_prefix:
  assumes "ListFieldMappings E dataflowID = Inr (before @ mapping # after)"
    and "UnmarshalSource E sourceData = Inr sourceObj"
    and "transformLoop E sourceObj [] before = Ok \<lparr>Data = Some destObj, Error = None\<rparr>"
  shows "TransformData E dataflowID sourceData =
           (case applyMapping E sourceObj destObj mapping of
              Continue destObj' \<Rightarrow> transformLoop E sourceObj destObj' after
            | Return r \<Rightarrow> Ok r
            | Unwind p \<Rightarrow> Panic p)"
  using assms transformLoop_append [OF assms(3), of "mapping # after"]
  by (simp add: TransformData_def)

text \<open>The three ways in which one iteration ends, by what the rule reads.\<close>

lemma applyMapping_required_absent:
  assumes "IsRequired mapping" and "getNestedValue sourceObj (SourceField mapping) = Err e"
  shows "applyMapping E sourceObj destObj mapping =
           Return \<lparr>Data = None, Error = Some (RequiredFieldNotFound (SourceField mapping))\<rparr>"
  using assms by (simp add: applyMapping_def)

lemma applyMapping_skipped:
  assumes "\<not> IsRequired mapping" and "DefaultValue mapping = []"
    and "getNestedValue sourceObj (SourceField mapping) = Err e"
  shows "applyMapping E sourceObj destObj mapping = Continue destObj"
  using assms by (simp add: applyMapping_def)

lemma applyMapping_ruleInput:
  assumes "ruleInput sourceObj mapping = Some v"
  shows "applyMapping E sourceObj destObj mapping = transformAndSet E destObj mapping v"
  using assms
  by (auto simp: ruleInput_def applyMapping_def split: result.splits if_splits)

text \<open>
  Whatever the source and the destination are when the loop reaches a required rule whose
  source field is absent, the loop returns at once with the error alone.
\<close>

lemma transformLoop_required_absent:
  assumes "IsRequired mapping" and "getNestedValue sourceObj (SourceField mapping) = Err e"
  shows "transformLoop E sourceObj destObj (mapping # after) =
           Ok \<lparr>Data = None, Error = Some (RequiredFieldNotFound (SourceField mapping))\<rparr>"
  using assms by (simp add: applyMapping_def)

text \<open>The shop of the examples.\<close>

lemma shopEnv_simps:
  "ListFieldMappings (shopEnv ms) i = Inr ms"
  "UnmarshalSource (shopEnv ms) shirtData = Inr shirtObj"
  "UnmarshalEntityLookup (shopEnv ms) productLookup = Inr \<lparr>EntityType = ''product'', Property = ''name''\<rparr>"
  by (simp_all add: shopEnv_def decodes_def)

lemma getNestedValue_shirt:
  "getNestedValue shirtObj ''name'' = Ok (VString ''Shirt'')"
  "getNestedValue shirtObj ''price'' = Err (FieldNotFound ''price'')"
  "getNestedValue shirtObj ''taxId'' = Ok (VString ''42'')"
  by (simp_all add: getNestedValue_def getPart_def isArrayAccess_def Contains_def shirtObj_def)

lemma transformLoop_nameRule:
  "transformLoop E shirtObj [] [nameRule] =
     Ok \<lparr>Data = Some [(''title'', VString ''Shirt'')], Error = None\<rparr>"
  by (simp add: nameRule_def rule_def applyMapping_def transformAndSet_def getNestedValue_shirt
      applyTransformation_def setNestedValue_def setLast_def isArrayAccess_def Contains_def)

lemma aliasFree_nameRule: "aliasFree E shirtObj [nameRule]"
  by (simp add: aliasFree_def writesUnshared_def ruleInput_def nameRule_def rule_def
      getNestedValue_shirt applyTransformation_def)

lemma ruleInput_shirt:
  "ruleInput shirtObj taxRule = Some (VString ''42'')"
  "ruleInput shirtObj taxCopyRule = Some (VString ''42'')"
  by (simp_all add: ruleInput_def taxRule_def taxCopyRule_def rule_def getNestedValue_shirt)



text \<open>
  Claim C7 (output on failure), as stated, fails: the rule for \<open>name\<close> succeeds and writes
  \<open>title\<close>, the required rule for \<open>price\<close> fails, and the result carries the error with a nil
  \<open>Data\<close>, not the destination built so far.
\<close>

theorem partial_destination_not_returned:
  "transformLoop (shopEnv [nameRule, priceRule]) shirtObj [] [nameRule]
     = Ok \<lparr>Data = Some [(''title'', VString ''Shirt'')], Error = None\<rparr> \<and>
   TransformData (shopEnv [nameRule, priceRule]) 1 shirtData
     = Ok \<lparr>Data = None, Error = Some (RequiredFieldNotFound ''price'')\<rparr>"
  by (simp add: TransformData_def shopEnv_simps transformLoop_nameRule nameRule_def priceRule_def
      rule_def applyMapping_def transformAndSet_def getNestedValue_shirt applyTransformation_def
      setNestedValue_def setLast_def isArrayAccess_def Contains_def)

text \<open>
  Claim C7, amended. Let the rules before \<open>mapping\<close> all complete, without storing a map or
  slice of the source by reference, and have built \<open>destObj\<close>. When \<open>mapping\<close> fails, the
  result of \<open>TransformData\<close> is the terminal error alone, with a nil \<open>Data\<close>: the error naming the
  missing required field, the transformation's error under \<open>error transforming field\<close>, or the
  error of \<open>setNestedValue\<close> under \<open>error setting field\<close>; the writes of the rules before are not
  returned. When \<open>mapping\<close> is the last rule and completes, the result is the destination with
  its write added to what the rules before built (or just that, when the rule is skipped), and
  no error; with no rules at all it is the empty destination.
\<close>

theorem transform_result_by_rule:
  assumes "ListFieldMappings E dataflowID = Inr (before @ mapping # after)"
    and "UnmarshalSource E sourceData = Inr sourceObj"
    and "aliasFree E sourceObj before"
    and "transformLoop E sourceObj [] before = Ok \<lparr>Data = Some destObj, Error = None\<rparr>"
  shows "(IsRequired mapping \<and> getNestedValue sourceObj (SourceField mapping) = Err e \<longrightarrow>
            TransformData E dataflowID sourceData =
              Ok \<lparr>Data = None, Error = Some (RequiredFieldNotFound (SourceField mapping))\<rparr>) \<and>
         (ruleInput sourceObj mapping = Some v \<and> applyTransformation E v mapping = Err e \<longrightarrow>
            TransformData E dataflowID sourceData =
              Ok \<lparr>Data = None,
                    Error = Some (ErrorTransformingField (SourceField mapping) e)\<rparr>) \<and>
         (ruleInput sourceObj mapping = Some v \<and> applyTransformation E v mapping = Ok w \<and>
          setNestedValue destObj (DestField mapping) w = (destObj', Err e) \<longrightarrow>
            TransformData E dataflowID sourceData =
              Ok \<lparr>Data = None, Error = Some (ErrorSettingField (DestField mapping) e)\<rparr>) \<and>
         (after = [] \<and> ruleInput sourceObj mapping = Some v \<and>
          applyTransformation E v mapping = Ok w \<and>
          setNestedValue destObj (DestField mapping) w = (destObj', Ok ()) \<longrightarrow>
            TransformData E dataflowID sourceData =
              Ok \<lparr>Data = Some destObj', Error = None\<rparr>) \<and>
         (after = [] \<and> \<not> IsRequired mapping \<and> DefaultValue mapping = [] \<and>
          getNestedValue sourceObj (SourceField mapping) = Err e \<longrightarrow>
            TransformData E dataflowID sourceData =
              Ok \<lparr>Data = Some destObj, Error = None\<rparr>) \<and>
         (ListFieldMappings E emptyID = Inr [] \<and> UnmarshalSource E otherData = Inr otherObj \<longrightarrow>
            TransformData E emptyID otherData = Ok \<lparr>Data = Some [], Error = None\<rparr>)"
proof -
  note T = TransformData_after_prefix [OF assms(1,2,4)]
  have required: "TransformData E dataflowID sourceData =
      Ok \<lparr>Data = None, Error = Some (RequiredFieldNotFound (SourceField mapping))\<rparr>"
    if "IsRequired mapping" "getNestedValue sourceObj (SourceField mapping) = Err e"
    using T applyMapping_required_absent [OF that, of E destObj] by simp
  have transform: "TransformData E dataflowID sourceData =
      Ok \<lparr>Data = None, Error = Some (ErrorTransformingField (SourceField mapping) e)\<rparr>"
    if "ruleInput sourceObj mapping = Some v" "applyTransformation E v mapping = Err e"
    using T applyMapping_ruleInput [OF that(1), of E destObj] that(2)
    by (simp add: transformAndSet_def)
  have setting: "TransformData E dataflowID sourceData =
      Ok \<lparr>Data = None, Error = Some (ErrorSettingField (DestField mapping) e)\<rparr>"
    if "ruleInput sourceObj mapping = Some v" "applyTransformation E v mapping = Ok w"
      "setNestedValue destObj (DestField mapping) w = (destObj', Err e)"
    using T applyMapping_ruleInput [OF that(1), of E destObj] that(2,3)
    by (simp add: transformAndSet_def)
  have written: "TransformData E dataflowID sourceData =
      Ok \<lparr>Data = Some destObj', Error = None\<rparr>"
    if "after = []" "ruleInput sourceObj mapping = Some v"
      "applyTransformation E v mapping = Ok w"
      "setNestedValue destObj (DestField mapping) w = (destObj', Ok ())"
    using T applyMapping_ruleInput [OF that(2), of E destObj] that(1,3,4)
    by (simp add: transformAndSet_def)
  have skipped: "TransformData E dataflowID sourceData =
      Ok \<lparr>Data = Some destObj, Error = None\<rparr>"
    if "after = []" "\<not> IsRequired mapping" "DefaultValue mapping = []"
      "getNestedValue sourceObj (SourceField mapping) = Err e"
    using T applyMapping_skipped [OF that(2,3,4), of E destObj] that(1) by simp
  have none: "TransformData E emptyID otherData = Ok \<lparr>Data = Some [], Error = None\<rparr>"
    if "ListFieldMappings E emptyID = Inr []" "UnmarshalSource E otherData = Inr otherObj"
    using that by (simp add: TransformData_def)
  from required transform setting written skipped none show ?thesis
    by blast
qed

text \<open>
  The witness uses the theorem on two rulesets: after the rule for \<open>name\<close>, the lookup rule for
  \<open>taxId\<close> fails in its transformation and the result is that error with a nil \<open>Data\<close>; after
  the rule for \<open>name\<close>, the last rule copies \<open>taxId\<close> to \<open>tax.id\<close> and the result is the
  destination with both writes.
\<close>

theorem transform_result_by_rule_witness:
  "ListFieldMappings (shopEnv [nameRule, taxRule]) 1 = Inr ([nameRule] @ taxRule # []) \<and>
   UnmarshalSource (shopEnv [nameRule, taxRule]) shirtData = Inr shirtObj \<and>
   aliasFree (shopEnv [nameRule, taxRule]) shirtObj [nameRule] \<and>
   transformLoop (shopEnv [nameRule, taxRule]) shirtObj [] [nameRule]
     = Ok \<lparr>Data = Some [(''title'', VString ''Shirt'')], Error = None\<rparr> \<and>
   ruleInput shirtObj taxRule = Some (VString ''42'') \<and>
   applyTransformation (shopEnv [nameRule, taxRule]) (VString ''42'') taxRule
     = Err (UnsupportedEntityType ''product'') \<and>
   TransformData (shopEnv [nameRule, taxRule]) 1 shirtData
     = Ok \<lparr>Data = None,
           Error = Some (ErrorTransformingField ''taxId'' (UnsupportedEntityType ''product''))\<rparr> \<and>
   ListFieldMappings (shopEnv [nameRule, taxCopyRule]) 1 = Inr ([nameRule] @ taxCopyRule # []) \<and>
   UnmarshalSource (shopEnv [nameRule, taxCopyRule]) shirtData = Inr shirtObj \<and>
   aliasFree (shopEnv [nameRule, taxCopyRule]) shirtObj [nameRule] \<and>
   transformLoop (shopEnv [nameRule, taxCopyRule]) shirtObj [] [nameRule]
     = Ok \<lparr>Data = Some [(''title'', VString ''Shirt'')], Error = None\<rparr> \<and>
   ruleInput shirtObj taxCopyRule = Some (VString ''42'') \<and>
   applyTransformation (shopEnv [nameRule, taxCopyRule]) (VString ''42'') taxCopyRule
     = Ok (VString ''42'') \<and>
   setNestedValue [(''title'', VString ''Shirt'')] (DestField taxCopyRule) (VString ''42'')
     = ([(''title'', VString ''Shirt''), (''tax'', VMap [(''id'', VString ''42'')])], Ok ()) \<and>
   TransformData (shopEnv [nameRule, taxCopyRule]) 1 shirtData
     = Ok \<lparr>Data = Some [(''title'', VString ''Shirt''),
                         (''tax'', VMap [(''id'', VString ''42'')])],
           Error = None\<rparr>"
proof -
  let ?F = "shopEnv [nameRule, taxRule]"
  let ?S = "shopEnv [nameRule, taxCopyRule]"
  let ?title = "[(''title'', VString ''Shirt'')]"
  let ?both = "[(''title'', VString ''Shirt''), (''tax'', VMap [(''id'', VString ''42'')])]"
  have f1: "ListFieldMappings ?F 1 = Inr ([nameRule] @ taxRule # [])"
    and f2: "UnmarshalSource ?F shirtData = Inr shirtObj"
    by (simp_all add: shopEnv_simps)
  have f3: "aliasFree ?F shirtObj [nameRule]"
    by (rule aliasFree_nameRule)
  have f4: "transformLoop ?F shirtObj [] [nameRule] = Ok \<lparr>Data = Some ?title, Error = None\<rparr>"
    by (rule transformLoop_nameRule)
  have f5: "ruleInput shirtObj taxRule = Some (VString ''42'')"
    by (rule ruleInput_shirt)
  have f6: "applyTransformation ?F (VString ''42'') taxRule = Err (UnsupportedEntityType ''product'')"
    by (simp add: taxRule_def rule_def applyTransformation_def TransformationType_defs
        shopEnv_simps lookupEntity_def sprintfV_def)
  have sf: "SourceField taxRule = ''taxId''"
    by (simp add: taxRule_def rule_def)
  from transform_result_by_rule [OF f1 f2 f3 f4, where v = "VString ''42''"
      and e = "UnsupportedEntityType ''product''"] f5 f6
  have failed: "TransformData ?F 1 shirtData
      = Ok \<lparr>Data = None,
            Error = Some (ErrorTransformingField ''taxId'' (UnsupportedEntityType ''product''))\<rparr>"
    by (simp add: sf)
  have s1: "ListFieldMappings ?S 1 = Inr ([nameRule] @ taxCopyRule # [])"
    and s2: "UnmarshalSource ?S shirtData = Inr shirtObj"
    by (simp_all add: shopEnv_simps)
  have s3: "aliasFree ?S shirtObj [nameRule]"
    by (rule aliasFree_nameRule)
  have s4: "transformLoop ?S shirtObj [] [nameRule] = Ok \<lparr>Data = Some ?title, Error = None\<rparr>"
    by (rule transformLoop_nameRule)
  have s5: "ruleInput shirtObj taxCopyRule = Some (VString ''42'')"
    by (rule ruleInput_shirt)
  have s6: "applyTransformation ?S (VString ''42'') taxCopyRule = Ok (VString ''42'')"
    by (simp add: taxCopyRule_def rule_def applyTransformation_def)
  have s7: "setNestedValue ?title (DestField taxCopyRule) (VString ''42'') = (?both, Ok ())"
    by (simp add: taxCopyRule_def rule_def setNestedValue_def setLast_def isArrayAccess_def
        Contains_def)
  from transform_result_by_rule [OF s1 s2 s3 s4, where v = "VString ''42''"
      and w = "VString ''42''" and destObj' = ?both] s5 s6 s7
  have succeeded: "TransformData ?S 1 shirtData = Ok \<lparr>Data = Some ?both, Error = None\<rparr>"
    by simp
  from f1 f2 f3 f4 f5 f6 failed s1 s2 s3 s4 s5 s6 s7 succeeded show ?thesis
    by simp
qed

subsection \<open>The dispatcher\<close>

text \<open>The examples of \<open>convert\<close> and \<open>map\<close>: \<open>42\<close> and \<open>abc\<close> to \<open>int\<close>, and the status table.\<close>

lemma convert_int_example:
  assumes "TransformType mapping = TransformationTypeConvert"
    and "UnmarshalConvert E (TransformConfig mapping) = Inr \<lparr>ConvertType = ''int''\<rparr>"
  shows "applyTransformation E (VString ''42'') mapping = Ok (VInt 42)"
    and "applyTransformation E (VString ''abc'') mapping = Err (ErrorConvertingToInt ''abc'')"
proof -
  have "Atoi ''42'' = Some 42" and "Atoi ''abc'' = None"
    by code_simp+
  with assms show "applyTransformation E (VString ''42'') mapping = Ok (VInt 42)"
    and "applyTransformation E (VString ''abc'') mapping = Err (ErrorConvertingToInt ''abc'')"
    by (simp_all add: applyTransformation_def TransformationType_defs)
qed

lemma map_status_example:
  assumes "TransformType mapping = TransformationTypeMap"
    and "UnmarshalMap E (TransformConfig mapping) =
           Inr [(''true'', VString ''ACTIVE''), (''false'', VString ''DRAFT''),
                (''_default'', VString ''DRAFT'')]"
  shows "applyTransformation E (VBool True) mapping = Ok (VString ''ACTIVE'')"
    and "applyTransformation E (VString ''maybe'') mapping = Ok (VString ''DRAFT'')"
  using assms
  by (simp_all add: applyTransformation_def TransformationType_defs sprintfV_def)

text \<open>
  Claim C3 (conditional). \<open>applyTransformation\<close> has no case for the transformation type
  \<open>conditional\<close> that package \<open>models\<close> declares: whatever the value and the config, the
  result is the error of the default case.
\<close>

theorem conditional_is_unsupported:
  "applyTransformation E v (mapping\<lparr>TransformType := TransformationTypeConditional\<rparr>)
     = Err (UnsupportedTransformationType ''conditional'')"
  by (simp add: applyTransformation_def TransformationType_defs)




subsection \<open>media\_map\<close>

lemma length_mediaLoop:
  "list_all (\<lambda>item. \<exists>m. item = VMap m) items \<Longrightarrow>
   length (mediaLoop E config i items) = length items"
  by (induction items arbitrary: i) auto

lemma nth_mediaLoop:
  "list_all (\<lambda>item. \<exists>m. item = VMap m) items \<Longrightarrow> k < length items \<Longrightarrow> items ! k = VMap m \<Longrightarrow>
   mediaLoop E config i items ! k =
     VMap [(''mediaContentType'', VString ''IMAGE''),
           (''originalSource'', VString (fullURL (BaseURL config) (mediaField E m ''url''))),
           (''alt'', VString (mediaField E m ''alt'')),
           (''position'', VInt (int i + int k + 1))]"
proof (induction items arbitrary: i k)
  case Nil
  then show ?case by simp
next
  case (Cons item items)
  show ?case
  proof (cases k)
    case 0
    with Cons.prems show ?thesis by auto
  next
    case (Suc j)
    with Cons.prems have "mediaLoop E config (i + 1) items ! j =
       VMap [(''mediaContentType'', VString ''IMAGE''),
           (''originalSource'', VString (fullURL (BaseURL config) (mediaField E m ''url''))),
           (''alt'', VString (mediaField E m ''alt'')),
           (''position'', VInt (int (i + 1) + int j + 1))]"
      by (intro Cons.IH) auto
    with Cons.prems Suc show ?thesis by auto
  qed
qed

lemma mediaField_string: "map_of m k = Some (VString s) \<Longrightarrow> mediaField E m k = s"
  by (simp add: mediaField_def sprintfS_def)

text \<open>
  Claim C8 (media map shape), as stated, fails on the rule for \<open>originalSource\<close>: the relative
  URL \<open>httpdocs/a.png\<close> starts with no HTTP scheme and is not absolute, yet it is left without
  the base URL, because the test is for the four letters \<open>http\<close>; and \<open>img/b.png\<close> is not
  prefixed with the base URL as it is but with the base URL and a \<open>/\<close>.
\<close>

theorem media_url_prefix_rule:
  "transformMedia emptyEnv
      (VSlice [mediaItem ''httpdocs/a.png'' ''A'', mediaItem ''img/b.png'' ''B''])
      \<lparr>BaseURL = ''https://cdn.example.com''\<rparr>
     = Ok (VSlice
         [VMap [(''mediaContentType'', VString ''IMAGE''),
                (''originalSource'', VString ''httpdocs/a.png''),
                (''alt'', VString ''A''), (''position'', VInt 1)],
          VMap [(''mediaContentType'', VString ''IMAGE''),
                (''originalSource'', VString ''https://cdn.example.com/img/b.png''),
                (''alt'', VString ''B''), (''position'', VInt 2)]]) \<and>
   ''https://cdn.example.com/img/b.png'' \<noteq> ''https://cdn.example.com'' @ ''img/b.png''"
  by (simp add: transformMedia_def mediaItem_def mediaField_def sprintfS_def fullURL_def
      HasPrefix_def HasSuffix_def)

text \<open>
  Claim C8, amended. For an array of records whose \<open>url\<close> and \<open>alt\<close> are strings,
  \<open>transformMedia\<close> produces one record per element, in order, with \<open>mediaContentType\<close>
  \<open>IMAGE\<close>, the element's \<open>alt\<close>, its 1-based index as \<open>position\<close>, and as \<open>originalSource\<close>
  the \<open>url\<close> unchanged when the base URL is empty or the \<open>url\<close> starts with the letters
  \<open>http\<close>, and otherwise the base URL followed by the \<open>url\<close>, with a \<open>/\<close> put between them
  when the base URL does not end in one.
\<close>

theorem media_map_shape:
  assumes "\<forall>k < length items. \<exists>m url alt. items ! k = VMap m \<and>
              map_of m ''url'' = Some (VString url) \<and> map_of m ''alt'' = Some (VString alt)"
  shows "\<exists>dest. transformMedia E (VSlice items) config = Ok (VSlice dest) \<and>
           length dest = length items \<and>
           (\<forall>k < length items. \<forall>m url alt.
              items ! k = VMap m \<and> map_of m ''url'' = Some (VString url) \<and>
              map_of m ''alt'' = Some (VString alt) \<longrightarrow>
              dest ! k =
                VMap [(''mediaContentType'', VString ''IMAGE''),
                      (''originalSource'', VString
                         (if BaseURL config = [] \<or> HasPrefix url ''http'' then url
                          else if HasSuffix (BaseURL config) ''/'' then BaseURL config @ url
                          else BaseURL config @ ''/'' @ url)),
                      (''alt'', VString alt),
                      (''position'', VInt (int k + 1))])"
proof -
  have all: "list_all (\<lambda>item. \<exists>m. item = VMap m) items"
    using assms by (auto simp: list_all_length)
  have url: "fullURL (BaseURL config) u =
      (if BaseURL config = [] \<or> HasPrefix u ''http'' then u
       else if HasSuffix (BaseURL config) ''/'' then BaseURL config @ u
       else BaseURL config @ ''/'' @ u)" for u
    by (simp add: fullURL_def)
  show ?thesis
    using nth_mediaLoop [OF all, of _ _ E config 0]
    by (auto simp: transformMedia_def length_mediaLoop [OF all] mediaField_string url)
qed

theorem media_map_shape_witness:
  "\<exists>dest. transformMedia emptyEnv
             (VSlice [mediaItem ''img/a.png'' ''A'', mediaItem ''https://x.example/b.png'' ''B''])
             \<lparr>BaseURL = ''https://cdn.example.com/''\<rparr> = Ok (VSlice dest) \<and>
          length dest = 2 \<and>
          dest ! 0 = VMap [(''mediaContentType'', VString ''IMAGE''),
                           (''originalSource'', VString ''https://cdn.example.com/img/a.png''),
                           (''alt'', VString ''A''), (''position'', VInt 1)] \<and>
          dest ! 1 = VMap [(''mediaContentType'', VString ''IMAGE''),
                           (''originalSource'', VString ''https://x.example/b.png''),
                           (''alt'', VString ''B''), (''position'', VInt 2)]"
proof -
  let ?items = "[mediaItem ''img/a.png'' ''A'', mediaItem ''https://x.example/b.png'' ''B'']"
  have hyp: "\<forall>k < length ?items. \<exists>m url alt. ?items ! k = VMap m \<and>
      map_of m ''url'' = Some (VString url) \<and> map_of m ''alt'' = Some (VString alt)"
    by (simp add: mediaItem_def All_less_Suc less_Suc_eq)
  from media_map_shape [OF hyp, of emptyEnv "\<lparr>BaseURL = ''https://cdn.example.com/''\<rparr>"]
  obtain dest where d:
    "transformMedia emptyEnv (VSlice ?items) \<lparr>BaseURL = ''https://cdn.example.com/''\<rparr>
       = Ok (VSlice dest)"
    "length dest = length ?items"
    "\<forall>k < length ?items. \<forall>m url alt.
        ?items ! k = VMap m \<and> map_of m ''url'' = Some (VString url) \<and>
        map_of m ''alt'' = Some (VString alt) \<longrightarrow>
        dest ! k =
          VMap [(''mediaContentType'', VString ''IMAGE''),
                (''originalSource'', VString
                   (if BaseURL \<lparr>BaseURL = ''https://cdn.example.com/''\<rparr> = [] \<or> HasPrefix url ''http''
                    then url
                    else if HasSuffix (BaseURL \<lparr>BaseURL = ''https://cdn.example.com/''\<rparr>) ''/''
                      then BaseURL \<lparr>BaseURL = ''https://cdn.example.com/''\<rparr> @ url
                      else BaseURL \<lparr>BaseURL = ''https://cdn.example.com/''\<rparr> @ ''/'' @ url)),
                (''alt'', VString alt),
                (''position'', VInt (int k + 1))]"
    by blast
  from d(3) [rule_format, of 0 "[(''url'', VString ''img/a.png''), (''alt'', VString ''A'')]"
      "''img/a.png''" "''A''"]
  have "dest ! 0 = VMap [(''mediaContentType'', VString ''IMAGE''),
                           (''originalSource'', VString ''https://cdn.example.com/img/a.png''),
                           (''alt'', VString ''A''), (''position'', VInt 1)]"
    by (simp add: mediaItem_def HasPrefix_def HasSuffix_def)
  moreover
  from d(3) [rule_format, of 1 "[(''url'', VString ''https://x.example/b.png''), (''alt'', VString ''B'')]"
      "''https://x.example/b.png''" "''B''"]
  have "dest ! 1 = VMap [(''mediaContentType'', VString ''IMAGE''),
                           (''originalSource'', VString ''https://x.example/b.png''),
                           (''alt'', VString ''B''), (''position'', VInt 2)]"
    by (simp add: mediaItem_def HasPrefix_def HasSuffix_def)
  ultimately show ?thesis using d(1,2) by simp
qed

subsection \<open>metafield\<close>

text \<open>
  Claim C9 (metafield coercion never errors). A \<open>metafield\<close> rule whose config decodes with a
  non-empty namespace and key succeeds for every input value and returns the record of
  namespace, key, value and type (the type \<open>string\<close> when the config names none). When the
  type is \<open>number_integer\<close> and \<open>Atoi\<close> rejects the value's string form the value is the
  integer 0; when the type is \<open>number_decimal\<close> and \<open>ParseFloat\<close> rejects it the value is the
  float 0.0. The \<open>convert\<close> transformation returns an error on the same unparseable strings.
\<close>

theorem metafield_never_errors:
  assumes "TransformType mapping = TransformationTypeMetafield"
    and "UnmarshalMetafield E (TransformConfig mapping) = Inr config"
    and "Namespace config \<noteq> []"
    and "Key config \<noteq> []"
  shows "(\<exists>metafieldValue.
            applyTransformation E v mapping =
              Ok (VMap [(''namespace'', VString (Namespace config)),
                        (''key'', VString (Key config)),
                        (''value'', metafieldValue),
                        (''type'', VString (if MetafieldType config = [] then ''string''
                                            else MetafieldType config))]) \<and>
            (MetafieldType config = ''number_integer'' \<and> Atoi (sprintfV E v) = None
               \<longrightarrow> metafieldValue = VInt 0) \<and>
            (MetafieldType config = ''number_decimal'' \<and> ParseFloat E (sprintfV E v) = Inl msg
               \<longrightarrow> metafieldValue = VFloat (Float64 0))) \<and>
         (TransformType other = TransformationTypeConvert \<and>
          UnmarshalConvert E (TransformConfig other) = Inr convertConfig \<and>
          ConvertType convertConfig = ''int'' \<and> Atoi str = None
            \<longrightarrow> applyTransformation E (VString str) other = Err (ErrorConvertingToInt str)) \<and>
         (TransformType other = TransformationTypeConvert \<and>
          UnmarshalConvert E (TransformConfig other) = Inr convertConfig \<and>
          ConvertType convertConfig = ''float'' \<and> ParseFloat E str = Inl msg
            \<longrightarrow> applyTransformation E (VString str) other = Err (ErrorConvertingToFloat msg))"
proof (intro conjI impI)
  show "\<exists>metafieldValue.
            applyTransformation E v mapping =
              Ok (VMap [(''namespace'', VString (Namespace config)),
                        (''key'', VString (Key config)),
                        (''value'', metafieldValue),
                        (''type'', VString (if MetafieldType config = [] then ''string''
                                            else MetafieldType config))]) \<and>
            (MetafieldType config = ''number_integer'' \<and> Atoi (sprintfV E v) = None
               \<longrightarrow> metafieldValue = VInt 0) \<and>
            (MetafieldType config = ''number_decimal'' \<and> ParseFloat E (sprintfV E v) = Inl msg
               \<longrightarrow> metafieldValue = VFloat (Float64 0))"
    using assms
    by (simp add: applyTransformation_def TransformationType_defs createMetafield_def Let_def)
next
  assume "TransformType other = TransformationTypeConvert \<and>
          UnmarshalConvert E (TransformConfig other) = Inr convertConfig \<and>
          ConvertType convertConfig = ''int'' \<and> Atoi str = None"
  then show "applyTransformation E (VString str) other = Err (ErrorConvertingToInt str)"
    by (simp add: applyTransformation_def TransformationType_defs)
next
  assume "TransformType other = TransformationTypeConvert \<and>
          UnmarshalConvert E (TransformConfig other) = Inr convertConfig \<and>
          ConvertType convertConfig = ''float'' \<and> ParseFloat E str = Inl msg"
  then show "applyTransformation E (VString str) other = Err (ErrorConvertingToFloat msg)"
    by (simp add: applyTransformation_def TransformationType_defs)
qed

text \<open>
  The witness: the width \<open>wide\<close> becomes the integer 0 in an integer metafield and the float
  0.0 in a decimal one, where \<open>convert\<close> to \<open>int\<close> fails on it.
\<close>

theorem metafield_never_errors_witness:
  "applyTransformation
      (emptyEnv\<lparr>UnmarshalMetafield :=
                  (\<lambda>s. Inr \<lparr>Namespace = ''dimensions'', Key = ''width'',
                             MetafieldType = ''number_integer''\<rparr>),
                UnmarshalConvert := (\<lambda>s. Inr \<lparr>ConvertType = ''int''\<rparr>)\<rparr>)
      (VString ''wide'') (rule ''width'' ''metafields[0]'' False TransformationTypeMetafield [])
     = Ok (VMap [(''namespace'', VString ''dimensions''), (''key'', VString ''width''),
                 (''value'', VInt 0), (''type'', VString ''number_integer'')]) \<and>
   applyTransformation
      (emptyEnv\<lparr>UnmarshalMetafield :=
                  (\<lambda>s. Inr \<lparr>Namespace = ''dimensions'', Key = ''width'',
                             MetafieldType = ''number_integer''\<rparr>),
                UnmarshalConvert := (\<lambda>s. Inr \<lparr>ConvertType = ''int''\<rparr>)\<rparr>)
      (VString ''wide'') (rule ''width'' ''width'' False TransformationTypeConvert [])
     = Err (ErrorConvertingToInt ''wide'') \<and>
   applyTransformation
      (emptyEnv\<lparr>UnmarshalMetafield :=
                  (\<lambda>s. Inr \<lparr>Namespace = ''dimensions'', Key = ''width'',
                             MetafieldType = ''number_decimal''\<rparr>)\<rparr>)
      (VString ''wide'') (rule ''width'' ''metafields[0]'' False TransformationTypeMetafield [])
     = Ok (VMap [(''namespace'', VString ''dimensions''), (''key'', VString ''width''),
                 (''value'', VFloat (Float64 0)), (''type'', VString ''number_decimal'')])"
proof -
  let ?ci = "\<lparr>Namespace = ''dimensions'', Key = ''width'', MetafieldType = ''number_integer''\<rparr>"
  let ?cd = "\<lparr>Namespace = ''dimensions'', Key = ''width'', MetafieldType = ''number_decimal''\<rparr>"
  let ?Ei = "emptyEnv\<lparr>UnmarshalMetafield := (\<lambda>s. Inr ?ci),
                UnmarshalConvert := (\<lambda>s. Inr \<lparr>ConvertType = ''int''\<rparr>)\<rparr>"
  let ?Ed = "emptyEnv\<lparr>UnmarshalMetafield := (\<lambda>s. Inr ?cd)\<rparr>"
  let ?m = "rule ''width'' ''metafields[0]'' False TransformationTypeMetafield []"
  let ?c = "rule ''width'' ''width'' False TransformationTypeConvert []"
  have wide: "Atoi ''wide'' = None"
    by code_simp
  have i: "applyTransformation ?Ei (VString ''wide'') ?m
      = Ok (VMap [(''namespace'', VString ''dimensions''), (''key'', VString ''width''),
                  (''value'', VInt 0), (''type'', VString ''number_integer'')]) \<and>
    applyTransformation ?Ei (VString ''wide'') ?c = Err (ErrorConvertingToInt ''wide'')"
    using metafield_never_errors
      [of ?m ?Ei ?ci "VString ''wide''" "''invalid syntax''" ?c "\<lparr>ConvertType = ''int''\<rparr>" "''wide''"]
    by (auto simp: rule_def sprintfV_def wide)
  have d: "applyTransformation ?Ed (VString ''wide'') ?m
      = Ok (VMap [(''namespace'', VString ''dimensions''), (''key'', VString ''width''),
                  (''value'', VFloat (Float64 0)), (''type'', VString ''number_decimal'')])"
    using metafield_never_errors
      [of ?m ?Ed ?cd "VString ''wide''" "''invalid syntax''" ?c "\<lparr>ConvertType = ''int''\<rparr>" "''wide''"]
    by (auto simp: rule_def sprintfV_def emptyEnv_def)
  from i d show ?thesis by simp
qed

subsection \<open>Migration lifecycle\<close>

lemma UpdateMigrationStatus_found:
  "db (MigrationID request) = Some migrationLog \<Longrightarrow>
   UpdateMigrationStatus True now request db =
     (200, db(MigrationID request \<mapsto> applyStatus now request migrationLog))"
  by (simp add: UpdateMigrationStatus_def)

lemma Status_applyStatus: "Status (applyStatus now request l) = ReqStatus request"
  by (simp add: applyStatus_def Let_def)

lemma createLog_pending:
  "map_option Status (fst (createLog (Some i) dataflowID sourceID webhookData db) i)
     = Some MigrationStatusPending"
  by (simp add: createLog_def Let_def)

lemma saveHandoff_status:
  "map_option Status (saveHandoff True started migrationLog db (LogID migrationLog))
     = Some (Status (handoff started migrationLog))"
  by (simp add: saveHandoff_def)

lemma handoff_status:
  "Status (handoff (Inr executionARN) l) = MigrationStatusInProgress"
  "Status (handoff (Inl err) l) = MigrationStatusFailed"
  by (simp_all add: handoff_def)

lemma UpdateMigrationStatus_terminal:
  assumes "isTerminal (ReqStatus request)" and "db i = Some l" and "isTerminal (Status l)"
  shows "\<exists>l'. snd (UpdateMigrationStatus saved now request db) i = Some l' \<and>
              isTerminal (Status l')"
  using assms by (auto simp: UpdateMigrationStatus_def Status_applyStatus split: option.splits)

lemma saveHandoff_terminal:
  assumes "isTerminal (Status (handoff started migrationLog))"
    and "db i = Some l" and "isTerminal (Status l)"
  shows "\<exists>l'. saveHandoff saved started migrationLog db i = Some l' \<and> isTerminal (Status l')"
  using assms by (auto simp: saveHandoff_def)

lemma applyEvent_terminal:
  assumes "isTerminal (eventStatus ev)" and "db i = Some l" and "isTerminal (Status l)"
  shows "\<exists>l'. applyEvent ev db i = Some l' \<and> isTerminal (Status l')"
proof (cases ev)
  case (Callback saved now request)
  with assms show ?thesis
    using UpdateMigrationStatus_terminal [of request db i l saved now] by simp
next
  case (HandlerSave saved started migrationLog)
  with assms show ?thesis
    using saveHandoff_terminal [of started migrationLog db i l saved] by simp
qed

lemma runEvents_terminal:
  "\<forall>ev \<in> set events. isTerminal (eventStatus ev) \<Longrightarrow>
   db i = Some l \<Longrightarrow> isTerminal (Status l) \<Longrightarrow>
   \<exists>l'. runEvents events db i = Some l' \<and> isTerminal (Status l')"
proof (induction events arbitrary: db l)
  case Nil
  then show ?case by simp
next
  case (Cons ev evs)
  from Cons.prems have "isTerminal (eventStatus ev)"
    by simp
  with Cons.prems(2,3)
  obtain l1 where l1: "applyEvent ev db i = Some l1" "isTerminal (Status l1)"
    using applyEvent_terminal [of ev db i l] by blast
  have "\<forall>ev \<in> set evs. isTerminal (eventStatus ev)"
    using Cons.prems(1) by simp
  then have "\<exists>l'. runEvents evs (applyEvent ev db) i = Some l' \<and> isTerminal (Status l')"
    using l1 by (rule Cons.IH)
  then show ?case by simp
qed

lemma handedOff_1:
  "handedOff 1 =
     Some \<lparr>LogID = 1, LogDataflowID = 7, Status = MigrationStatusInProgress,
           SourceIdentifier = ''p-1'', DestIdentifier = [], ExecutionARN = ''arn:1'',
           SourcePayload = ''{}'', TransformedPayload = [], ErrorMessage = [],
           CompletedAt = None\<rparr>"
  by (simp add: handedOff_def processDataflow_def createLog_def saveHandoff_def handoff_def
      Let_def)

text \<open>
  Claim C4 (no state is revisited), as stated, fails: log 1 is created in \<open>pending\<close> and
  handed off (\<open>in_progress\<close>), a callback reports \<open>success\<close>, and a further callback that
  carries \<open>pending\<close> puts the log back into \<open>pending\<close>.
\<close>

theorem lifecycle_revisits_pending:
  "map_option Status (handedOff 1) = Some MigrationStatusInProgress \<and>
   map_option Status
     (runCallbacks [(True, 10, statusRequest 1 MigrationStatusSuccess)] handedOff 1)
     = Some MigrationStatusSuccess \<and>
   map_option Status
     (runCallbacks [(True, 10, statusRequest 1 MigrationStatusSuccess),
                    (True, 20, statusRequest 1 MigrationStatusPending)] handedOff 1)
     = Some MigrationStatusPending \<and>
   MigrationStatusPending \<noteq> MigrationStatusSuccess \<and>
   MigrationStatusPending \<noteq> MigrationStatusFailed"
  by code_simp

text \<open>
  The handler's own \<open>Save\<close> does the same when it lands late: log 1 is created, its execution
  is started and reports \<open>success\<close> before the handler has saved; the handler's \<open>Save\<close> then puts
  the log into \<open>in_progress\<close>, with a completion time and no callback left to come.
\<close>

lemma late_handler_save_reopens:
  "map_option Status (fst createdLog 1) = Some MigrationStatusPending \<and>
   map_option Status
     (runEvents [Callback True 10 (statusRequest 1 MigrationStatusSuccess)] (fst createdLog) 1)
     = Some MigrationStatusSuccess \<and>
   map_option Status
     (runEvents [Callback True 10 (statusRequest 1 MigrationStatusSuccess),
                 HandlerSave True (Inr ''arn:1'') pendingLog] (fst createdLog) 1)
     = Some MigrationStatusInProgress \<and>
   snd createdLog = Some pendingLog"
  by code_simp

text \<open>
  Claim C4, amended. The webhook handler creates a log in \<open>pending\<close>. Its \<open>Save\<close> after the start of
  the execution stores \<open>in_progress\<close> when the start succeeded and \<open>failed\<close> when it failed,
  whatever the row holds by then. A status callback for an existing log stores the status it
  carries, whatever the log's current status is. Hence a log that has reached \<open>success\<close> or
  \<open>failed\<close> is in one of these two states after any run of writes, callbacks and handler saves
  in any order, only as long as each of these writes carries \<open>success\<close> or \<open>failed\<close> (it can
  still change from one to the other); a callback that carries another status, or the save of
  a handler whose start succeeded, takes it out of them.
\<close>

theorem status_writes_unguarded:
  "map_option Status (fst (createLog (Some i) dataflowID sourceID webhookData db) i)
     = Some MigrationStatusPending \<and>
   map_option Status (saveHandoff True (Inr executionARN) migrationLog anyTable (LogID migrationLog))
     = Some MigrationStatusInProgress \<and>
   map_option Status (saveHandoff True (Inl err) migrationLog anyTable (LogID migrationLog))
     = Some MigrationStatusFailed \<and>
   (table (MigrationID request) = Some stored \<longrightarrow>
      map_option Status (snd (UpdateMigrationStatus True now request table) (MigrationID request))
        = Some (ReqStatus request)) \<and>
   ((\<forall>ev \<in> set events. isTerminal (eventStatus ev)) \<and>
    logs k = Some l \<and> isTerminal (Status l) \<longrightarrow>
      (\<exists>l'. runEvents events logs k = Some l' \<and> isTerminal (Status l')))"
  using runEvents_terminal [of events logs k l]
  by (auto simp: createLog_pending saveHandoff_status handoff_status UpdateMigrationStatus_found
      Status_applyStatus)

text \<open>
  The witness: log 1 is created in \<open>pending\<close>; on the table where a callback has already
  stored \<open>success\<close>, the handler's save of a started execution stores \<open>in_progress\<close> and that of
  a failed start stores \<open>failed\<close>; the callback \<open>success\<close> is stored over \<open>in_progress\<close>; and
  after \<open>success\<close>, a callback \<open>failed\<close>, the save of a handler whose start failed and an
  unsaved callback leave the log in a terminal state.
\<close>

theorem status_writes_unguarded_witness:
  "map_option Status (fst (createLog (Some 1) 7 ''p-1'' ''{}'' Map.empty) 1)
     = Some MigrationStatusPending \<and>
   map_option Status (succeeded 1) = Some MigrationStatusSuccess \<and>
   map_option Status (saveHandoff True (Inr ''arn:1'') pendingLog succeeded (LogID pendingLog))
     = Some MigrationStatusInProgress \<and>
   map_option Status (saveHandoff True (Inl ''no such state machine'') pendingLog succeeded
       (LogID pendingLog))
     = Some MigrationStatusFailed \<and>
   map_option Status (handedOff (MigrationID (statusRequest 1 MigrationStatusSuccess)))
     = Some MigrationStatusInProgress \<and>
   map_option Status
     (snd (UpdateMigrationStatus True 10 (statusRequest 1 MigrationStatusSuccess) handedOff)
        (MigrationID (statusRequest 1 MigrationStatusSuccess)))
     = Some MigrationStatusSuccess \<and>
   isTerminal (eventStatus (Callback True 20 (statusRequest 1 MigrationStatusFailed))) \<and>
   isTerminal (eventStatus (HandlerSave True (Inl ''no such state machine'') pendingLog)) \<and>
   isTerminal (eventStatus (Callback False 30 (statusRequest 1 MigrationStatusSuccess))) \<and>
   (\<exists>l. succeeded 1 = Some l \<and> isTerminal (Status l)) \<and>
   (\<exists>l'. runEvents [Callback True 20 (statusRequest 1 MigrationStatusFailed),
                     HandlerSave True (Inl ''no such state machine'') pendingLog,
                     Callback False 30 (statusRequest 1 MigrationStatusSuccess)] succeeded 1
            = Some l' \<and> isTerminal (Status l'))"
proof -
  let ?r = "statusRequest 1 MigrationStatusSuccess"
  let ?events = "[Callback True 20 (statusRequest 1 MigrationStatusFailed),
                  HandlerSave True (Inl ''no such state machine'') pendingLog,
                  Callback False 30 (statusRequest 1 MigrationStatusSuccess)]"
  obtain l0 where l0: "handedOff (MigrationID ?r) = Some l0"
    and s0: "Status l0 = MigrationStatusInProgress"
    using handedOff_1 by (simp add: statusRequest_def)
  have "succeeded 1 =
     Some \<lparr>LogID = 1, LogDataflowID = 7, Status = MigrationStatusSuccess,
           SourceIdentifier = ''p-1'', DestIdentifier = [], ExecutionARN = ''arn:1'',
           SourcePayload = ''{}'', TransformedPayload = [], ErrorMessage = [],
           CompletedAt = Some 10\<rparr>"
    using handedOff_1
    by (simp add: succeeded_def UpdateMigrationStatus_def applyStatus_def statusRequest_def
        MigrationStatusSuccess_def)
  then obtain l1 where l1: "succeeded 1 = Some l1" and s1: "Status l1 = MigrationStatusSuccess"
    by simp
  have t1: "isTerminal (Status l1)"
    using s1 by (simp add: isTerminal_def)
  have ev: "\<forall>ev \<in> set ?events. isTerminal (eventStatus ev)"
    by (simp add: isTerminal_def statusRequest_def handoff_def)
  note T = status_writes_unguarded [where i = 1 and dataflowID = 7 and sourceID = "''p-1''"
      and webhookData = "''{}''" and db = Map.empty and executionARN = "''arn:1''"
      and err = "''no such state machine''" and migrationLog = pendingLog
      and anyTable = succeeded and table = handedOff and request = ?r and stored = l0
      and now = 10 and events = ?events and logs = succeeded and k = 1 and l = l1]
  from T l0 ev l1 t1
  have "map_option Status (fst (createLog (Some 1) 7 ''p-1'' ''{}'' Map.empty) 1)
      = Some MigrationStatusPending"
    and "map_option Status (saveHandoff True (Inr ''arn:1'') pendingLog succeeded (LogID pendingLog))
      = Some MigrationStatusInProgress"
    and "map_option Status (saveHandoff True (Inl ''no such state machine'') pendingLog succeeded
          (LogID pendingLog)) = Some MigrationStatusFailed"
    and "map_option Status (snd (UpdateMigrationStatus True 10 ?r handedOff) (MigrationID ?r))
      = Some (ReqStatus ?r)"
    and "\<exists>l'. runEvents ?events succeeded 1 = Some l' \<and> isTerminal (Status l')"
    by blast+
  moreover have "ReqStatus ?r = MigrationStatusSuccess"
    by (simp add: statusRequest_def)
  ultimately show ?thesis
    using l0 s0 l1 s1 t1 ev by simp
qed

end
